theory Spec2Isabelle
  imports Complex_Main
begin

section \<open>Python and NumPy primitives used by the ECG pipeline\<close>

text \<open>
  The analysis core is the Python module that \<^verbatim>\<open>src/services/ecgWorker.ts\<close> loads into
  Pyodide (\<^verbatim>\<open>loadECGProcessingCode\<close>).  Floating-point numbers are modelled as exact
  reals, Python integers as \<open>int\<close>, array positions that only ever grow from a
  non-negative start as \<open>nat\<close>; printing (the \<^verbatim>\<open>verbose\<close> output) is left out.  Where
  NumPy would produce \<open>inf\<close> or \<open>nan\<close> (a division by
  zero inside an array operation) the real-number model has no counterpart; theorems that
  depend on such a quotient carry the hypothesis that the divisor is not zero.
\<close>

datatype py_error = ValueError | IndexError | ZeroDivisionError | RuntimeError

definition bind_err :: "py_error + 'a \<Rightarrow> ('a \<Rightarrow> py_error + 'b) \<Rightarrow> py_error + 'b" where
  "bind_err m f = (case m of Inl e \<Rightarrow> Inl e | Inr x \<Rightarrow> f x)"

text \<open>\<^verbatim>\<open>int(x)\<close> on a float truncates towards zero.\<close>

definition py_int :: "real \<Rightarrow> int" where
  "py_int x = (if 0 \<le> x then \<lfloor>x\<rfloor> else \<lceil>x\<rceil>)"

text \<open>Slice bounds: a negative bound counts from the end, and both are clipped to the length.\<close>

definition py_norm :: "nat \<Rightarrow> int \<Rightarrow> nat" where
  "py_norm n k = (if k < 0 then nat (max 0 (int n + k)) else min n (nat k))"

definition py_slice :: "'a list \<Rightarrow> int \<Rightarrow> int \<Rightarrow> 'a list" where
  "py_slice xs lo hi = take (py_norm (length xs) hi - py_norm (length xs) lo) (drop (py_norm (length xs) lo) xs)"

definition py_slice_from :: "'a list \<Rightarrow> int \<Rightarrow> 'a list" where
  "py_slice_from xs lo = drop (py_norm (length xs) lo) xs"

text \<open>Indexing: a negative index counts from the end, anything out of range raises.\<close>

definition py_get :: "'a list \<Rightarrow> int \<Rightarrow> py_error + 'a" where
  "py_get xs k =
     (if 0 \<le> k \<and> k < int (length xs) then Inr (xs ! nat k)
      else if k < 0 \<and> - int (length xs) \<le> k then Inr (xs ! nat (int (length xs) + k))
      else Inl IndexError)"

text \<open>\<^verbatim>\<open>xs[-8:]\<close> on a Python list.\<close>

definition last8 :: "'a list \<Rightarrow> 'a list" where
  "last8 xs = drop (length xs - 8) xs"

definition np_mean :: "real list \<Rightarrow> real" where
  "np_mean xs = sum_list xs / real (length xs)"

definition np_var :: "real list \<Rightarrow> real" where
  "np_var xs = np_mean (map (\<lambda>x. (x - np_mean xs) * (x - np_mean xs)) xs)"

definition np_std :: "real list \<Rightarrow> real" where
  "np_std xs = sqrt (np_var xs)"

text \<open>\<^verbatim>\<open>np.std(xs, ddof=1)\<close>.\<close>

definition np_std_ddof1 :: "real list \<Rightarrow> real" where
  "np_std_ddof1 xs =
     sqrt (sum_list (map (\<lambda>x. (x - np_mean xs) * (x - np_mean xs)) xs) / (real (length xs) - 1))"

fun np_diff :: "'a::minus list \<Rightarrow> 'a list" where
  "np_diff (x # y # ys) = (y - x) # np_diff (y # ys)"
| "np_diff _ = []"

text \<open>\<^verbatim>\<open>np.argmax\<close> and \<^verbatim>\<open>np.argmin\<close> return the first position of the extremum: a
  scan that keeps the best position so far and replaces it only by a strictly better sample.
  On an empty array they raise, so every caller below tests for emptiness first.\<close>

fun argmax_from :: "real list \<Rightarrow> nat \<Rightarrow> nat \<Rightarrow> real \<Rightarrow> nat" where
  "argmax_from [] i best best_val = best"
| "argmax_from (x # xs) i best best_val =
     (if best_val < x then argmax_from xs (Suc i) i x
      else argmax_from xs (Suc i) best best_val)"

definition np_argmax :: "real list \<Rightarrow> nat" where
  "np_argmax xs = (case xs of [] \<Rightarrow> 0 | x # rest \<Rightarrow> argmax_from rest 1 0 x)"

fun argmin_from :: "real list \<Rightarrow> nat \<Rightarrow> nat \<Rightarrow> real \<Rightarrow> nat" where
  "argmin_from [] i best best_val = best"
| "argmin_from (x # xs) i best best_val =
     (if x < best_val then argmin_from xs (Suc i) i x
      else argmin_from xs (Suc i) best best_val)"

definition np_argmin :: "real list \<Rightarrow> nat" where
  "np_argmin xs = (case xs of [] \<Rightarrow> 0 | x # rest \<Rightarrow> argmin_from rest 1 0 x)"

text \<open>\<^verbatim>\<open>np.percentile(a, q)\<close> with the default linear interpolation between the two
  order statistics around the virtual index \<open>q/100 \<sqdot> (n - 1)\<close>.\<close>

definition np_percentile :: "real list \<Rightarrow> real \<Rightarrow> real" where
  "np_percentile a q =
     (let s = sort a;
          v = q / 100 * (real (length a) - 1);
          lo = nat \<lfloor>v\<rfloor>;
          hi = min (lo + 1) (length a - 1)
      in s ! lo + (v - real lo) * (s ! hi - s ! lo))"

text \<open>Substring test \<^verbatim>\<open>sub in s\<close> on strings.\<close>

fun py_in :: "string \<Rightarrow> string \<Rightarrow> bool" where
  "py_in sub [] = (sub = [])"
| "py_in sub (c # cs) = (take (length sub) (c # cs) = sub \<or> py_in sub cs)"

section \<open>Rhythm analysis: \<^verbatim>\<open>detect_arrhythmia\<close>\<close>

record rhythm_metrics =
  cv :: real
  mean_hr :: real
  mean_rr_ms :: "real option"
  std_rr_ms :: "real option"

definition rr_intervals_s :: "int list \<Rightarrow> real \<Rightarrow> real list" where
  "rr_intervals_s r_peaks fs = map (\<lambda>d. real_of_int d / fs) (np_diff r_peaks)"

definition rate_tier :: "real \<Rightarrow> string" where
  "rate_tier hr =
     (if hr < 60 then ''Bradycardia''
      else if hr > 100 then ''Tachycardia''
      else ''Normal Sinus Rhythm'')"

definition detect_arrhythmia :: "int list \<Rightarrow> real \<Rightarrow> string \<times> rhythm_metrics" where
  "detect_arrhythmia r_peaks fs =
     (if length r_peaks < 3 then
        (''Insufficient data'', \<lparr>cv = 0, mean_hr = 0, mean_rr_ms = None, std_rr_ms = None\<rparr>)
      else
        let rr_intervals = rr_intervals_s r_peaks fs;
            mean_rr = np_mean rr_intervals;
            std_rr = np_std rr_intervals;
            cv_val = (if mean_rr > 0 then std_rr / mean_rr else 0);
            hr_values = map (\<lambda>rr. 60 / rr) rr_intervals;
            mean_hr_val = np_mean hr_values;
            rhythm_status = rate_tier mean_hr_val;
            rhythm_status' =
              (if cv_val \<ge> 0.15 then ''Flagged: Irregular Rhythm''
               else if cv_val \<ge> 0.08 \<and> py_in ''Normal'' rhythm_status
                    then ''Borderline: Mild Irregularity''
               else rhythm_status)
        in (rhythm_status',
            \<lparr>cv = cv_val, mean_hr = mean_hr_val,
             mean_rr_ms = Some (mean_rr * 1000), std_rr_ms = Some (std_rr * 1000)\<rparr>))"

section \<open>QT interval: \<^verbatim>\<open>calculate_qt_interval\<close>\<close>

record qt_metrics =
  mean_qt_ms :: real
  mean_qtc_bazett_ms :: real
  qt_risk_flag :: bool
  qt_interpretation :: string

text \<open>One iteration of the loop over consecutive R-peaks: \<open>Inr None\<close> is a
  \<^verbatim>\<open>continue\<close> or a value outside (200, 600), \<open>Inr (Some qt)\<close> an appended value.\<close>

definition qt_of_beat :: "real list \<Rightarrow> real \<Rightarrow> int \<Rightarrow> py_error + real option" where
  "qt_of_beat signal_array fs r_idx =
     (let t_start = r_idx + py_int (0.04 * fs);
          t_end_window = r_idx + py_int (0.45 * fs)
      in if t_end_window \<ge> int (length signal_array) then Inr None
         else let t_window = py_slice signal_array t_start t_end_window
         in if length t_window = 0 then Inr None
         else let t_peak_idx = t_start + int (np_argmax t_window);
                  slope_search_len = py_int (0.1 * fs);
                  slope_search = py_slice signal_array t_peak_idx (t_peak_idx + slope_search_len)
         in if length slope_search < 2 then Inr None
         else let slopes = np_diff slope_search;
                  min_slope_idx = np_argmin slopes;
                  max_slope = slopes ! min_slope_idx
         in if max_slope = 0 then Inr None
         else let slope_point_idx = t_peak_idx + int min_slope_idx
         in bind_err (py_get signal_array slope_point_idx) (\<lambda>slope_point_val.
            let t_end_idx = real_of_int slope_point_idx - slope_point_val / max_slope;
                q_start_idx = r_idx - py_int (0.03 * fs);
                qt_ms = (t_end_idx - real_of_int q_start_idx) / fs * 1000
            in Inr (if 200 < qt_ms \<and> qt_ms < 600 then Some qt_ms else None)))"

fun qt_loop :: "real list \<Rightarrow> real \<Rightarrow> int list \<Rightarrow> real list \<Rightarrow> py_error + real list" where
  "qt_loop signal_array fs [] qt_ms_list = Inr qt_ms_list"
| "qt_loop signal_array fs (r_idx # rest) qt_ms_list =
     bind_err (qt_of_beat signal_array fs r_idx) (\<lambda>res.
       qt_loop signal_array fs rest
         (case res of None \<Rightarrow> qt_ms_list | Some qt \<Rightarrow> qt_ms_list @ [qt]))"

definition qt_interpretation_of :: "real \<Rightarrow> string" where
  "qt_interpretation_of qtc =
     (if qtc < 450 then ''Normal'' else if qtc < 500 then ''Prolonged QTc''
      else ''High Risk (Long QT)'')"

definition calculate_qt_interval :: "real list \<Rightarrow> int list \<Rightarrow> real \<Rightarrow> py_error + qt_metrics" where
  "calculate_qt_interval ecg_signal r_peaks fs =
     (if length r_peaks < 3 then
        Inr \<lparr>mean_qt_ms = 0, mean_qtc_bazett_ms = 0, qt_risk_flag = False,
             qt_interpretation = ''N/A''\<rparr>
      else
        bind_err (qt_loop ecg_signal fs (butlast r_peaks) []) (\<lambda>qt_ms_list.
          let mean_qt = (if qt_ms_list \<noteq> [] then np_mean qt_ms_list else 0);
              rr_intervals = rr_intervals_s r_peaks fs;
              mean_rr = (if length rr_intervals > 0 then np_mean rr_intervals else 1);
              qtc_bazett = (if mean_rr > 0 then mean_qt / sqrt mean_rr else 0)
          in Inr \<lparr>mean_qt_ms = mean_qt, mean_qtc_bazett_ms = qtc_bazett,
                  qt_risk_flag = (qtc_bazett > 470),
                  qt_interpretation = qt_interpretation_of qtc_bazett\<rparr>))"

section \<open>Heart-rate variability: \<^verbatim>\<open>calculate_hrv_metrics\<close>\<close>

record hrv_metrics =
  sdnn_ms :: real
  rmssd_ms :: real
  pnn50_percent :: real
  pnn20_percent :: "real option"
  sdsd_ms :: "real option"
  mean_nn_ms :: "real option"
  cv_percent :: "real option"
  nn_count :: "nat option"
  ectopic_removed :: "nat option"
  hrv_interpretation :: string

definition calculate_hrv_metrics :: "int list \<Rightarrow> real \<Rightarrow> hrv_metrics" where
  "calculate_hrv_metrics r_peaks fs =
     (if length r_peaks < 3 then
        \<lparr>sdnn_ms = 0, rmssd_ms = 0, pnn50_percent = 0, pnn20_percent = None, sdsd_ms = None,
         mean_nn_ms = Some 0,
         cv_percent = Some 0, nn_count = None, ectopic_removed = None,
         hrv_interpretation = ''Insufficient data''\<rparr>
      else
        let rr_ms = map (\<lambda>d. real_of_int d / fs * 1000) (np_diff r_peaks);
            nn_intervals = filter (\<lambda>x. x > 300 \<and> x < 1500) rr_ms
        in if length nn_intervals < 2 then
             \<lparr>sdnn_ms = 0, rmssd_ms = 0, pnn50_percent = 0, pnn20_percent = None, sdsd_ms = None,
              mean_nn_ms = None,
              cv_percent = None, nn_count = None, ectopic_removed = None,
              hrv_interpretation = ''High noise level - unstable RR''\<rparr>
           else
             let sdnn = np_std_ddof1 nn_intervals;
                 diff_nn = np_diff nn_intervals;
                 rmssd = sqrt (np_mean (map (\<lambda>d. d * d) diff_nn));
                 nn50 = length (filter (\<lambda>d. \<bar>d\<bar> > 50) diff_nn);
                 pnn50 = (if length diff_nn > 0
                          then real nn50 / real (length diff_nn) * 100 else 0);
                 mean_nn = np_mean nn_intervals;
                 cvp = sdnn / mean_nn * 100;
                 interpretation =
                   (if sdnn < 20 then ''Low HRV (Reduced variability)''
                    else if sdnn < 100 then ''Normal range for short-term recording''
                    else ''High Variability'')
             in \<lparr>sdnn_ms = sdnn, rmssd_ms = rmssd, pnn50_percent = pnn50,
                 pnn20_percent = Some 0,
                 sdsd_ms = Some (if length diff_nn > 0 then np_std diff_nn else 0),
                 mean_nn_ms = Some mean_nn, cv_percent = Some cvp,
                 nn_count = Some (length nn_intervals),
                 ectopic_removed = Some (length rr_ms - length nn_intervals),
                 hrv_interpretation = interpretation\<rparr>)"

section \<open>SciPy filter design and zero-phase filtering\<close>

text \<open>
  \<^verbatim>\<open>scipy.signal.butter\<close>, \<^verbatim>\<open>iirnotch\<close> and \<^verbatim>\<open>filtfilt\<close> are library code.  Their
  argument validation is modelled (it decides when the pipeline raises); their numerics are
  a parameter \<open>zp\<close>, which maps a designed filter, an input array and a position to the
  sample of the zero-phase filtered array at that position (the output of \<^verbatim>\<open>filtfilt\<close>
  has the shape of its input).  A band-pass Butterworth design of order \<open>N\<close> has \<open>2N + 1\<close> numerator and
  denominator coefficients, a notch has \<open>3\<close>; \<^verbatim>\<open>filtfilt\<close> pads with three times that
  many samples and raises unless the input is longer than the padding.
\<close>

datatype iir = Butter_band nat real real | Notch real real

fun ntaps :: "iir \<Rightarrow> nat" where
  "ntaps (Butter_band N lo hi) = 2 * N + 1"
| "ntaps (Notch w0 Q) = 3"

type_synonym zero_phase = "iir \<Rightarrow> real list \<Rightarrow> nat \<Rightarrow> real"

definition scipy_butter_band :: "nat \<Rightarrow> real \<Rightarrow> real \<Rightarrow> py_error + iir" where
  "scipy_butter_band N lo hi =
     (if lo \<le> 0 \<or> hi \<le> 0 \<or> hi \<le> lo \<or> 1 \<le> lo \<or> 1 \<le> hi then Inl ValueError
      else Inr (Butter_band N lo hi))"

definition scipy_iirnotch :: "real \<Rightarrow> real \<Rightarrow> py_error + iir" where
  "scipy_iirnotch w0 Q = (if w0 > 1 \<or> w0 < 0 then Inl ValueError else Inr (Notch w0 Q))"

definition scipy_filtfilt :: "zero_phase \<Rightarrow> iir \<Rightarrow> real list \<Rightarrow> py_error + real list" where
  "scipy_filtfilt zp f x =
     (if length x \<le> 3 * ntaps f then Inl ValueError
      else Inr (map (zp f x) [0..<length x]))"

text \<open>\<^verbatim>\<open>np.convolve(a, v, mode='same')\<close>: the full convolution, cut to the length of the
  longer argument around its centre; an empty argument raises.\<close>

definition np_convolve_full :: "real list \<Rightarrow> real list \<Rightarrow> real list" where
  "np_convolve_full a v =
     map (\<lambda>m. sum_list (map (\<lambda>j. if j \<le> m \<and> m - j < length v then a ! j * v ! (m - j) else 0)
                              [0..<length a]))
         [0..<length a + length v - 1]"

definition np_convolve_same :: "real list \<Rightarrow> real list \<Rightarrow> py_error + real list" where
  "np_convolve_same a v =
     (if a = [] \<or> v = [] then Inl ValueError
      else Inr (take (max (length a) (length v))
                  (drop ((min (length a) (length v) - 1) div 2) (np_convolve_full a v))))"

section \<open>QRS detection: \<^verbatim>\<open>pan_tompkins_detector\<close>\<close>

definition five_point_derivative :: "real list \<Rightarrow> real \<Rightarrow> real list" where
  "five_point_derivative x fs =
     map (\<lambda>i. if 2 \<le> i \<and> i + 2 < length x
               then (- (x ! (i - 2)) - 2 * x ! (i - 1) + 2 * x ! (i + 1) + x ! (i + 2)) / (8 / fs)
               else 0)
         [0..<length x]"

text \<open>
  The state of the adaptive-thresholding \<^verbatim>\<open>while\<close> loop.  The loop is reached only after
  \<^verbatim>\<open>butter\<close> accepted \<open>5 / nyquist\<close> and \<open>15 / nyquist\<close>, that is with \<open>fs > 30\<close>, so
  \<^verbatim>\<open>int(0.2 * fs)\<close> and \<^verbatim>\<open>int(0.08 * fs)\<close> are not negative and positions are naturals.
\<close>

record det_state =
  pos :: nat
  r_peaks :: "nat list"
  signal_peaks :: "real list"
  noise_peaks :: "real list"
  threshold :: real

definition refractory_samples :: "real \<Rightarrow> nat" where
  "refractory_samples fs = nat (py_int (0.2 * fs))"

definition search_window :: "real \<Rightarrow> nat" where
  "search_window fs = nat (py_int (0.08 * fs))"

definition is_local_max :: "real list \<Rightarrow> nat \<Rightarrow> bool" where
  "is_local_max integrated i =
     (integrated ! i > integrated ! (i - 1) \<and> integrated ! i > integrated ! (i + 1))"

definition refractory_ok :: "real \<Rightarrow> det_state \<Rightarrow> bool" where
  "refractory_ok fs st =
     (r_peaks st = [] \<or> int (pos st) - int (last (r_peaks st)) > int (refractory_samples fs))"

definition start_idx :: "real \<Rightarrow> nat \<Rightarrow> nat" where
  "start_idx fs i = nat (max 0 (int i - int (search_window fs)))"

definition end_idx :: "real list \<Rightarrow> real \<Rightarrow> nat \<Rightarrow> nat" where
  "end_idx signal_array fs i = min (length signal_array) (i + search_window fs)"

definition local_signal :: "real list \<Rightarrow> real \<Rightarrow> nat \<Rightarrow> real list" where
  "local_signal signal_array fs i =
     take (end_idx signal_array fs i - start_idx fs i) (drop (start_idx fs i) signal_array)"

definition actual_peak_idx :: "real list \<Rightarrow> real \<Rightarrow> nat \<Rightarrow> nat" where
  "actual_peak_idx signal_array fs i =
     start_idx fs i + np_argmax (local_signal signal_array fs i)"

definition amplitude_gate :: "real list \<Rightarrow> real \<Rightarrow> bool" where
  "amplitude_gate signal_array peak_val = (peak_val > np_std signal_array * 0.5)"

definition updated_threshold :: "real list \<Rightarrow> real list \<Rightarrow> real" where
  "updated_threshold signal_peaks' noise_peaks' =
     (let avg_signal_peak = np_mean (last8 signal_peaks');
          avg_noise_peak = (if noise_peaks' \<noteq> [] then np_mean (last8 noise_peaks') else 0)
      in avg_noise_peak + 0.40 * (avg_signal_peak - avg_noise_peak))"

text \<open>One pass through the body of the \<^verbatim>\<open>while\<close> loop.\<close>

definition detect_step :: "real list \<Rightarrow> real list \<Rightarrow> real \<Rightarrow> det_state \<Rightarrow> det_state" where
  "detect_step integrated signal_array fs st =
     (let i = pos st in
      if is_local_max integrated i then
        if integrated ! i > threshold st then
          if refractory_ok fs st then
            if length (local_signal signal_array fs i) > 0 then
              if amplitude_gate signal_array (signal_array ! actual_peak_idx signal_array fs i) then
                st\<lparr>pos := i + refractory_samples fs,
                   r_peaks := r_peaks st @ [actual_peak_idx signal_array fs i],
                   signal_peaks := signal_peaks st @ [integrated ! i],
                   threshold := updated_threshold (signal_peaks st @ [integrated ! i]) (noise_peaks st)\<rparr>
              else st\<lparr>pos := i + 1\<rparr>
            else st\<lparr>pos := i + 1\<rparr>
          else st\<lparr>pos := i + 1\<rparr>
        else st\<lparr>pos := i + 1, noise_peaks := noise_peaks st @ [integrated ! i]\<rparr>
      else st\<lparr>pos := i + 1\<rparr>)"

text \<open>The \<^verbatim>\<open>while\<close> loop.  It terminates because every pass moves the position forward:
  a peak is accepted only from a non-empty search window, so \<^verbatim>\<open>int(0.08 * fs)\<close> is at
  least 1, and then the refractory skip \<^verbatim>\<open>int(0.2 * fs)\<close> is at least 2.\<close>

function detect_loop :: "real list \<Rightarrow> real list \<Rightarrow> real \<Rightarrow> det_state \<Rightarrow> det_state" where
  "detect_loop integrated signal_array fs st =
     (if pos st < length integrated - 1
      then detect_loop integrated signal_array fs (detect_step integrated signal_array fs st)
      else st)"
  by pat_completeness auto
termination
proof (relation "measure (\<lambda>(integrated, signal_array, fs, st). length integrated - pos st)")
  show "wf (measure (\<lambda>(integrated, signal_array, fs, st). length integrated - pos st))"
    by simp
next
  fix integrated signal_array :: "real list" and fs :: real and st :: det_state
  assume run: "pos st < length integrated - 1"
  have skip: "0 < refractory_samples fs" if "0 < length (local_signal signal_array fs (pos st))"
  proof -
    have "0 < search_window fs"
      using that
      by (cases "search_window fs = 0") (auto simp: local_signal_def start_idx_def end_idx_def)
    then have "1 \<le> 0.08 * fs"
      by (auto simp: search_window_def py_int_def split: if_splits)
    then have "2 \<le> 0.2 * fs" by simp
    then have "2 \<le> \<lfloor>0.2 * fs\<rfloor>" by linarith
    then show ?thesis by (simp add: refractory_samples_def py_int_def)
  qed
  have "pos st < pos (detect_step integrated signal_array fs st)"
    using skip by (simp add: detect_step_def Let_def)
  then show "((integrated, signal_array, fs, detect_step integrated signal_array fs st),
              (integrated, signal_array, fs, st))
             \<in> measure (\<lambda>(integrated, signal_array, fs, st). length integrated - pos st)"
    using run by auto
qed

declare detect_loop.simps [simp del]

record detection_metrics =
  num_peaks :: nat
  avg_heart_rate_bpm :: real
  avg_rr_interval_s :: "real option"
  rr_std_s :: "real option"
  final_threshold :: real

definition heart_rate_metrics :: "nat list \<Rightarrow> real \<Rightarrow> real \<Rightarrow> detection_metrics" where
  "heart_rate_metrics peaks fs thr =
     (if length peaks \<ge> 2 then
        let rr_intervals = rr_intervals_s (map int peaks) fs;
            avg_rr = np_mean rr_intervals;
            avg_bpm = (if avg_rr > 0 then 60 / avg_rr else 0)
        in \<lparr>num_peaks = length peaks, avg_heart_rate_bpm = avg_bpm,
            avg_rr_interval_s = Some avg_rr, rr_std_s = Some (np_std rr_intervals),
            final_threshold = thr\<rparr>
      else \<lparr>num_peaks = length peaks, avg_heart_rate_bpm = 0, avg_rr_interval_s = None,
            rr_std_s = None, final_threshold = thr\<rparr>)"

definition initial_state :: "real list \<Rightarrow> det_state" where
  "initial_state integrated =
     \<lparr>pos = 1, r_peaks = [], signal_peaks = [], noise_peaks = [],
      threshold = 0.6 * np_percentile integrated 98\<rparr>"

definition integrate_window :: "real list \<Rightarrow> real \<Rightarrow> py_error + real list" where
  "integrate_window squared fs =
     (let window_size = py_int (0.120 * fs)
      in if window_size < 0 then Inl ValueError
         else np_convolve_same squared
                (replicate (nat window_size) (1 / real_of_int window_size)))"

text \<open>The stages before thresholding: QRS band-pass, five-point derivative, squaring and
  moving-window integration.\<close>

definition integrated_signal :: "zero_phase \<Rightarrow> real list \<Rightarrow> real \<Rightarrow> py_error + real list" where
  "integrated_signal zp ecg_signal fs =
     (if fs = 0 then Inl ZeroDivisionError
      else
        let nyquist = fs / 2 in
        bind_err (scipy_butter_band 2 (5 / nyquist) (15 / nyquist)) (\<lambda>qrs_band.
        bind_err (scipy_filtfilt zp qrs_band ecg_signal) (\<lambda>filtered_qrs.
        let derivative = five_point_derivative filtered_qrs fs;
            squared = map (\<lambda>d. d * d) derivative
        in integrate_window squared fs)))"

definition pan_tompkins_detector ::
  "zero_phase \<Rightarrow> real list \<Rightarrow> real \<Rightarrow> py_error + nat list \<times> detection_metrics" where
  "pan_tompkins_detector zp ecg_signal fs =
     bind_err (integrated_signal zp ecg_signal fs) (\<lambda>integrated.
       let st = detect_loop integrated ecg_signal fs (initial_state integrated)
       in Inr (r_peaks st, heart_rate_metrics (r_peaks st) fs (threshold st)))"


section \<open>QRS width: \<^verbatim>\<open>measure_qrs_width\<close>\<close>

record qrs_metrics =
  mean_qrs_ms :: real
  std_qrs_ms :: real
  qrs_interpretation :: string

text \<open>The backward scan for the Q onset, over \<^verbatim>\<open>range(r_local, 0, -1)\<close>; the
  \<^verbatim>\<open>else\<close> of the \<^verbatim>\<open>for\<close> runs when the scan ends without \<^verbatim>\<open>break\<close>.\<close>

fun q_onset_loop :: "real list \<Rightarrow> int \<Rightarrow> int list \<Rightarrow> py_error + int" where
  "q_onset_loop segment r_local [] = Inr 0"
| "q_onset_loop segment r_local (i # rest) =
     (if i < r_local - 2 then
        bind_err (py_get segment i) (\<lambda>a.
        bind_err (py_get segment (i - 1)) (\<lambda>b.
          if \<bar>a - b\<bar> < 0.005 then Inr i else q_onset_loop segment r_local rest))
      else q_onset_loop segment r_local rest)"

text \<open>The forward scan for the S offset, over \<^verbatim>\<open>range(s_point_global, len(segment) - 1)\<close>.\<close>

fun s_offset_loop :: "real list \<Rightarrow> int list \<Rightarrow> py_error + int" where
  "s_offset_loop segment [] = Inr (int (length segment) - 1)"
| "s_offset_loop segment (i # rest) =
     bind_err (py_get segment (i + 1)) (\<lambda>a.
     bind_err (py_get segment i) (\<lambda>b.
       if \<bar>a - b\<bar> < 0.005 then Inr i else s_offset_loop segment rest))"

text \<open>One iteration of the loop over R-peaks: \<open>Inr None\<close> is a \<^verbatim>\<open>continue\<close> or a width
  outside (40, 200), \<open>Inr (Some w)\<close> an appended width.\<close>

definition qrs_width_of_beat :: "real list \<Rightarrow> real \<Rightarrow> int \<Rightarrow> py_error + real option" where
  "qrs_width_of_beat signal_array fs r_idx =
     (let pre_window = py_int (0.05 * fs);
          post_window = py_int (0.08 * fs);
          start_search = max 0 (r_idx - pre_window);
          end_search = min (int (length signal_array)) (r_idx + post_window);
          segment = py_slice signal_array start_search end_search
      in if length segment < 5 then Inr None
         else
           let r_local = r_idx - start_search in
           bind_err (q_onset_loop segment r_local (rev [1..r_local])) (\<lambda>q_onset.
           let s_search_segment = py_slice_from segment r_local
           in if s_search_segment = [] then Inl ValueError
              else
                let s_point_global = r_local + int (np_argmin s_search_segment) in
                bind_err (s_offset_loop segment [s_point_global..int (length segment) - 2])
                  (\<lambda>s_offset.
                if fs = 0 then Inl ZeroDivisionError
                else
                  let width_ms = real_of_int ((s_offset - q_onset) * 1000) / fs
                  in Inr (if 40 < width_ms \<and> width_ms < 200 then Some width_ms else None))))"

fun qrs_width_loop :: "real list \<Rightarrow> real \<Rightarrow> int list \<Rightarrow> real list \<Rightarrow> py_error + real list" where
  "qrs_width_loop signal_array fs [] qrs_widths = Inr qrs_widths"
| "qrs_width_loop signal_array fs (r_idx # rest) qrs_widths =
     bind_err (qrs_width_of_beat signal_array fs r_idx) (\<lambda>res.
       qrs_width_loop signal_array fs rest
         (case res of None \<Rightarrow> qrs_widths | Some w \<Rightarrow> qrs_widths @ [w]))"

definition measure_qrs_width :: "real list \<Rightarrow> int list \<Rightarrow> real \<Rightarrow> py_error + qrs_metrics" where
  "measure_qrs_width ecg_signal peaks fs =
     (if length peaks < 2 then
        Inr \<lparr>mean_qrs_ms = 0, std_qrs_ms = 0, qrs_interpretation = ''Insufficient data''\<rparr>
      else
        bind_err (qrs_width_loop ecg_signal fs peaks []) (\<lambda>qrs_widths.
          if qrs_widths = [] then
            Inr \<lparr>mean_qrs_ms = 80, std_qrs_ms = 0, qrs_interpretation = ''Could not detect''\<rparr>
          else
            let mean_qrs = np_mean qrs_widths;
                status = (if mean_qrs \<ge> 120 then ''Wide QRS (BBB/Ventricular)''
                          else if mean_qrs \<le> 60 then ''Narrow (Normal)'' else ''Normal'')
            in Inr \<lparr>mean_qrs_ms = mean_qrs, std_qrs_ms = np_std qrs_widths,
                    qrs_interpretation = status\<rparr>))"

section \<open>Preprocessing: \<^verbatim>\<open>preprocess_ecg\<close>\<close>

text \<open>\<^verbatim>\<open>scipy.ndimage.uniform_filter1d(x, size, mode='nearest')\<close>: the mean over the window
  of \<open>width\<close> samples that starts \<open>width div 2\<close> before the position, positions outside the
  array taking the nearest sample; a size below one raises.\<close>

definition uniform_filter1d :: "real list \<Rightarrow> int \<Rightarrow> py_error + real list" where
  "uniform_filter1d x width =
     (if width < 1 then Inl RuntimeError
      else Inr (map (\<lambda>i. sum_list (map (\<lambda>k. x ! nat (max 0 (min (int (length x) - 1)
                                                   (int i - width div 2 + int k))))
                                     [0..<nat width]) / real_of_int width)
                    [0..<length x]))"

text \<open>The signal-to-noise estimate in dB; \<^verbatim>\<open>log10(0)\<close> is minus infinity in NumPy.\<close>

datatype decibel = Finite_dB real | Minus_inf_dB

record filter_metrics =
  snr_db :: decibel
  confidence_score :: real
  signal_std :: real

definition estimate_snr :: "real \<Rightarrow> real \<Rightarrow> decibel" where
  "estimate_snr signal_power noise_power =
     (if noise_power = 0 then Finite_dB 100
      else if signal_power / noise_power = 0 then Minus_inf_dB
      else Finite_dB (10 * log 10 (signal_power / noise_power)))"

fun quality_percent :: "decibel \<Rightarrow> real" where
  "quality_percent (Finite_dB s) = max 0 (min 100 ((s - 5) * 5))"
| "quality_percent Minus_inf_dB = 0"

definition preprocess_ecg ::
  "zero_phase \<Rightarrow> real list \<Rightarrow> real \<Rightarrow> py_error + real list \<times> filter_metrics" where
  "preprocess_ecg zp raw_signal fs =
     (if fs = 0 then Inl ZeroDivisionError
      else
        let nyquist = fs / 2;
            low_cutoff = 0.5 / nyquist;
            high_cutoff = 40 / nyquist in
        bind_err (scipy_butter_band 4 low_cutoff high_cutoff) (\<lambda>band.
        bind_err (scipy_filtfilt zp band raw_signal) (\<lambda>filtered.
        bind_err (scipy_iirnotch (60 / nyquist) 30) (\<lambda>notch.
        bind_err (scipy_filtfilt zp notch filtered) (\<lambda>notched.
        bind_err (uniform_filter1d notched (py_int (0.2 * fs))) (\<lambda>baseline.
        let cleaned = map2 (\<lambda>a b. a - b) notched baseline;
            signal_power = np_var cleaned;
            noise_removed = map2 (\<lambda>a b. a - b) raw_signal cleaned;
            noise_power = np_var noise_removed;
            snr = estimate_snr signal_power noise_power
        in Inr (cleaned,
                \<lparr>snr_db = snr, confidence_score = quality_percent snr,
                 signal_std = np_std cleaned\<rparr>)))))))"

section \<open>The complete pipeline: \<^verbatim>\<open>process_ecg_complete\<close>\<close>

text \<open>The clinical interpretation at the end of \<^verbatim>\<open>process_ecg_complete\<close>: the final rhythm
  label and the warning list.\<close>

definition clinical_interpretation ::
  "string \<Rightarrow> qrs_metrics \<Rightarrow> detection_metrics \<Rightarrow> qt_metrics \<Rightarrow> hrv_metrics \<Rightarrow> string \<times> string list" where
  "clinical_interpretation rhythm qrs det qt hrv =
     (let (enhanced_rhythm, warnings) =
            (if mean_qrs_ms qrs > 120 then
               if avg_heart_rate_bpm det > 100 then
                 (''Wide-Complex Tachycardia - URGENT EVALUATION'',
                  [''Wide QRS with tachycardia requires immediate assessment''])
               else (rhythm, [qrs_interpretation qrs])
             else (rhythm, []));
          warnings' = (if qt_risk_flag qt then warnings @ [qt_interpretation qt] else warnings);
          warnings'' = (if sdnn_ms hrv > 0 \<and> sdnn_ms hrv < 50
                        then warnings' @ [''Low HRV detected - consider cardiac risk assessment'']
                        else warnings')
      in (enhanced_rhythm, warnings''))"

record ui_metrics =
  bpm :: real
  rhythmStatus :: string
  confidence :: real
  sdnn :: real
  rmssd :: real
  qtcBazett :: real
  qrsWidth :: real
  pnn50 :: real
  clinicalWarnings :: "string list"

record results =
  cleaned_signal :: "real list"
  r_peak_indices :: "nat list"
  metrics :: ui_metrics
  res_filter_metrics :: filter_metrics
  res_detection_metrics :: detection_metrics
  res_arrhythmia_metrics :: rhythm_metrics
  res_qrs_metrics :: qrs_metrics
  res_qt_metrics :: qt_metrics
  res_hrv_metrics :: hrv_metrics
  rhythm_status :: string
  clinical_warnings :: "string list"
  sample_rate :: real
  num_samples :: nat

text \<open>The \<^verbatim>\<open>verbose\<close> flag only switches printing, which is not part of the result.
  The first two stages, preprocessing and R-peak detection, are \<open>detection_stage\<close>.\<close>

definition detection_stage ::
  "zero_phase \<Rightarrow> real list \<Rightarrow> real
     \<Rightarrow> py_error + real list \<times> filter_metrics \<times> nat list \<times> detection_metrics" where
  "detection_stage zp raw_voltages rate =
     bind_err (preprocess_ecg zp raw_voltages rate) (\<lambda>(cleaned, fm).
     bind_err (pan_tompkins_detector zp cleaned rate) (\<lambda>(peaks, dm).
       Inr (cleaned, fm, peaks, dm)))"

definition process_ecg_complete ::
  "zero_phase \<Rightarrow> real list \<Rightarrow> real \<Rightarrow> bool \<Rightarrow> py_error + results" where
  "process_ecg_complete zp raw_voltages rate verbose =
     bind_err (detection_stage zp raw_voltages rate) (\<lambda>(cleaned, fm, peaks, dm).
     let (rhythm, am) = detect_arrhythmia (map int peaks) rate in
     bind_err (measure_qrs_width cleaned (map int peaks) rate) (\<lambda>qrs.
     bind_err (calculate_qt_interval cleaned (map int peaks) rate) (\<lambda>qt.
     let hrv = calculate_hrv_metrics (map int peaks) rate;
         (enhanced_rhythm, warnings) = clinical_interpretation rhythm qrs dm qt hrv;
         ui = \<lparr>bpm = avg_heart_rate_bpm dm, rhythmStatus = enhanced_rhythm,
               confidence = confidence_score fm, sdnn = sdnn_ms hrv, rmssd = rmssd_ms hrv,
               qtcBazett = mean_qtc_bazett_ms qt, qrsWidth = mean_qrs_ms qrs,
               pnn50 = pnn50_percent hrv, clinicalWarnings = warnings\<rparr>
     in Inr \<lparr>cleaned_signal = cleaned, r_peak_indices = peaks, metrics = ui,
             res_filter_metrics = fm, res_detection_metrics = dm,
             res_arrhythmia_metrics = am, res_qrs_metrics = qrs, res_qt_metrics = qt,
             res_hrv_metrics = hrv, rhythm_status = enhanced_rhythm,
             clinical_warnings = warnings, sample_rate = rate,
             num_samples = length raw_voltages\<rparr>)))"

section \<open>Properties checked on the detector output\<close>

text \<open>Every two consecutive entries of a peak list differ by more than \<open>d\<close>.\<close>

fun min_gap_exceeds :: "int \<Rightarrow> nat list \<Rightarrow> bool" where
  "min_gap_exceeds d (x # y # ys) = (d < int y - int x \<and> min_gap_exceeds d (y # ys))"
| "min_gap_exceeds d _ = True"


text \<open>The label hierarchy as the specification words it: severe irregularity first, then
  the rate tier, a normal rate with mild irregularity being borderline.  It is compared with
  \<^verbatim>\<open>detect_arrhythmia\<close> below.\<close>

definition claimed_label :: "real \<Rightarrow> real \<Rightarrow> string" where
  "claimed_label cv_rr hr =
     (if cv_rr \<ge> 0.15 then ''Flagged: Irregular Rhythm''
      else if hr < 60 then ''Bradycardia''
      else if hr > 100 then ''Tachycardia''
      else if cv_rr \<ge> 0.08 then ''Borderline: Mild Irregularity''
      else ''Normal Sinus Rhythm'')"

text \<open>Multiplying every sample by a constant; a filter kernel is homogeneous when it
  commutes with that (every linear filter is); the loop state with its peak values and
  threshold multiplied by a constant.\<close>

definition scale :: "real \<Rightarrow> real list \<Rightarrow> real list" where
  "scale c xs = map (\<lambda>x. c * x) xs"

definition homogeneous :: "zero_phase \<Rightarrow> bool" where
  "homogeneous zp = (\<forall>f x c i. i < length x \<longrightarrow> zp f (scale c x) i = c * zp f x i)"

definition scale_state :: "real \<Rightarrow> det_state \<Rightarrow> det_state" where
  "scale_state c st =
     st\<lparr>signal_peaks := scale c (signal_peaks st), noise_peaks := scale c (noise_peaks st),
        threshold := c * threshold st\<rparr>"

text \<open>A stand-in for the numeric filter kernel that returns its input unchanged; concrete
  runs below use it, the general theorems hold for every kernel.\<close>

definition pass_through :: zero_phase where
  "pass_through f x i = x ! i"

text \<open>The result of the pipeline on a flat line of 28 samples at 250 Hz: no peaks, no
  warnings, every bundle at its "insufficient data" value.\<close>

definition flat_line_result :: results where
  "flat_line_result =
     \<lparr>cleaned_signal = replicate 28 0, r_peak_indices = [],
      metrics = \<lparr>bpm = 0, rhythmStatus = ''Insufficient data'', confidence = 100, sdnn = 0,
                 rmssd = 0, qtcBazett = 0, qrsWidth = 0, pnn50 = 0, clinicalWarnings = []\<rparr>,
      res_filter_metrics = \<lparr>snr_db = Finite_dB 100, confidence_score = 100, signal_std = 0\<rparr>,
      res_detection_metrics =
        \<lparr>num_peaks = 0, avg_heart_rate_bpm = 0, avg_rr_interval_s = None, rr_std_s = None,
         final_threshold = 0\<rparr>,
      res_arrhythmia_metrics = \<lparr>cv = 0, mean_hr = 0, mean_rr_ms = None, std_rr_ms = None\<rparr>,
      res_qrs_metrics =
        \<lparr>mean_qrs_ms = 0, std_qrs_ms = 0, qrs_interpretation = ''Insufficient data''\<rparr>,
      res_qt_metrics =
        \<lparr>mean_qt_ms = 0, mean_qtc_bazett_ms = 0, qt_risk_flag = False,
         qt_interpretation = ''N/A''\<rparr>,
      res_hrv_metrics =
        \<lparr>sdnn_ms = 0, rmssd_ms = 0, pnn50_percent = 0, pnn20_percent = None, sdsd_ms = None,
         mean_nn_ms = Some 0, cv_percent = Some 0, nn_count = None, ectopic_removed = None,
         hrv_interpretation = ''Insufficient data''\<rparr>,
      rhythm_status = ''Insufficient data'', clinical_warnings = [],
      sample_rate = 250, num_samples = 28\<rparr>"

text \<open>Two unit impulses, at samples 4 and 31 of 48 samples, for a run at 125 Hz; the
  signal after baseline removal (window \<^verbatim>\<open>int(0.2 * 125) = 25\<close>) and the integrated signal
  of the detector (window \<^verbatim>\<open>int(0.12 * 125) = 15\<close>) under the pass-through kernel.\<close>

definition two_beats :: "real list" where
  "two_beats = (replicate 48 0)[4 := 1, 31 := 1]"

definition two_beats_cleaned :: "real list" where
  "two_beats_cleaned =
      [- (1 / 25), - (1 / 25), - (1 / 25), - (1 / 25), 24 / 25, - (1 / 25), - (1 / 25),
       - (1 / 25), - (1 / 25), - (1 / 25), - (1 / 25), - (1 / 25), - (1 / 25), - (1 / 25),
       - (1 / 25), - (1 / 25), - (1 / 25), 0, 0, - (1 / 25), - (1 / 25), - (1 / 25),
       - (1 / 25), - (1 / 25), - (1 / 25), - (1 / 25), - (1 / 25), - (1 / 25), - (1 / 25),
       - (1 / 25), - (1 / 25), 24 / 25, - (1 / 25), - (1 / 25), - (1 / 25), - (1 / 25),
       - (1 / 25), - (1 / 25), - (1 / 25), - (1 / 25), - (1 / 25), - (1 / 25), - (1 / 25),
       - (1 / 25), 0, 0, 0, 0]"

definition two_beats_integrated :: "real list" where
  "two_beats_integrated =
      [15625 / 96, 15625 / 96, 15625 / 96, 15625 / 96, 15625 / 96, 15625 / 96, 15625 / 96,
       15625 / 96, 31255 / 192, 7825 / 48, 28195 / 192, 15715 / 192, 985 / 12, 3265 / 192,
       35 / 48, 35 / 48, 35 / 48, 35 / 48, 35 / 48, 35 / 48, 35 / 48, 35 / 48, 3265 / 192,
       985 / 12, 15715 / 192, 28195 / 192, 7825 / 48, 31255 / 192, 15625 / 96, 15625 / 96,
       15625 / 96, 15625 / 96, 15625 / 96, 15625 / 96, 15625 / 96, 31255 / 192, 7825 / 48,
       7055 / 48, 15725 / 192, 15725 / 192, 1075 / 64, 25 / 48, 25 / 48, 25 / 48, 25 / 48,
       25 / 48, 25 / 48, 25 / 48]"

section \<open>The thresholding loop: refractory spacing, rate metrics and rejected candidates\<close>


lemma np_var_nonneg: "0 \<le> np_var xs"
  unfolding np_var_def np_mean_def
  by (intro divide_nonneg_nonneg sum_list_nonneg) auto

lemma amplitude_gate_code [code]: "amplitude_gate xs p = (0 < p \<and> np_var xs < 4 * p * p)"
proof (cases "0 < p")
  case True
  have "sqrt (np_var xs) < 2 * p \<longleftrightarrow> np_var xs < (2 * p)\<^sup>2"
    using True by (metis real_sqrt_less_iff real_sqrt_abs abs_of_pos mult_pos_pos zero_less_numeral)
  moreover have "amplitude_gate xs p = (sqrt (np_var xs) < 2 * p)"
    by (auto simp add: amplitude_gate_def np_std_def)
  ultimately show ?thesis using True by (simp add: power2_eq_square mult.assoc)
next
  case False
  have "0 \<le> sqrt (np_var xs)" using np_var_nonneg by simp
  then have "\<not> p > sqrt (np_var xs) * 0.5" using False by linarith
  then show ?thesis using False by (simp add: amplitude_gate_def np_std_def)
qed

lemma min_gap_exceeds_snoc:
  "min_gap_exceeds d (xs @ [a]) \<longleftrightarrow>
     min_gap_exceeds d xs \<and> (xs = [] \<or> d < int a - int (last xs))"
  by (induction d xs rule: min_gap_exceeds.induct) auto

lemma actual_peak_idx_lower: "int i - int (search_window fs) \<le> int (actual_peak_idx signal_array fs i)"
  by (simp add: actual_peak_idx_def start_idx_def)

lemma detect_step_gaps:
  assumes "min_gap_exceeds (int (refractory_samples fs) - int (search_window fs)) (r_peaks st)"
  shows "min_gap_exceeds (int (refractory_samples fs) - int (search_window fs))
           (r_peaks (detect_step integrated signal_array fs st))"
  using assms actual_peak_idx_lower [of "pos st" fs signal_array]
  by (auto simp: detect_step_def Let_def min_gap_exceeds_snoc refractory_ok_def)

lemma detect_loop_gaps:
  "min_gap_exceeds (int (refractory_samples fs) - int (search_window fs)) (r_peaks st) \<Longrightarrow>
   min_gap_exceeds (int (refractory_samples fs) - int (search_window fs))
     (r_peaks (detect_loop integrated signal_array fs st))"
proof (induction integrated signal_array fs st rule: detect_loop.induct)
  case (1 integrated signal_array fs st)
  show ?case
  proof (cases "pos st < length integrated - 1")
    case True
    then show ?thesis
      using "1.IH" [OF True detect_step_gaps [OF "1.prems"]]
      by (subst detect_loop.simps) simp
  next
    case False
    then show ?thesis using "1.prems" by (subst detect_loop.simps) simp
  qed
qed

lemma detector_peaks:
  assumes "pan_tompkins_detector zp ecg fs = Inr (peaks, dm)"
  obtains integrated where "integrated_signal zp ecg fs = Inr integrated"
    and "peaks = r_peaks (detect_loop integrated ecg fs (initial_state integrated))"
    and "dm = heart_rate_metrics peaks fs (threshold (detect_loop integrated ecg fs (initial_state integrated)))"
  using assms
  by (auto simp: pan_tompkins_detector_def bind_err_def Let_def split: sum.splits)

lemma integrated_signal_fs:
  assumes "integrated_signal zp ecg fs = Inr integrated"
  shows "30 < fs" and "15 < length ecg"
  using assms
  by (auto simp: integrated_signal_def bind_err_def Let_def scipy_butter_band_def
        scipy_filtfilt_def split: if_splits sum.splits)

subsection \<open>A concrete run of the detector\<close>

text \<open>Sixteen samples at 31 Hz (the shortest input and about the lowest rate the QRS
  band-pass accepts): \<^verbatim>\<open>int(0.2 * 31) = 6\<close>, \<^verbatim>\<open>int(0.08 * 31) = 2\<close>,
  \<^verbatim>\<open>int(0.12 * 31) = 3\<close>.  The integrated signal has strict local maxima at positions 4
  and 11; the candidate at 11 passes the refractory test against the previous peak 4
  (\<open>11 - 4 > 6\<close>) and is then relocated to the largest sample of \<^verbatim>\<open>ecg[9:13]\<close>, at 9.\<close>

lemma small_integrated:
  "integrated_signal pass_through [0,0,0,0,2,0,0,0,0,1,0,-1,0,0,0,0] 31 =
     Inr [0, 961 / 48, 4805 / 48, 4805 / 48, 961 / 6, 4805 / 48, 6727 / 64,
      2883 / 64, 961 / 32, 6727 / 64, 2883 / 32, 6727 / 64, 961 / 32,
      4805 / 192, 961 / 192, 0]"
  by code_simp

lemma small_loop:
  "detect_loop [0, 961 / 48, 4805 / 48, 4805 / 48, 961 / 6, 4805 / 48, 6727 / 64,
      2883 / 64, 961 / 32, 6727 / 64, 2883 / 32, 6727 / 64, 961 / 32,
      4805 / 192, 961 / 192, 0] [0,0,0,0,2,0,0,0,0,1,0,-1,0,0,0,0] 31
     (initial_state [0, 961 / 48, 4805 / 48, 4805 / 48, 961 / 6, 4805 / 48, 6727 / 64,
      2883 / 64, 961 / 32, 6727 / 64, 2883 / 32, 6727 / 64, 961 / 32,
      4805 / 192, 961 / 192, 0])
   = \<lparr>pos = 17, r_peaks = [4, 9], signal_peaks = [961 / 6, 6727 / 64],
    noise_peaks = [], threshold = 50933 / 960\<rparr>"
  by code_simp

lemma small_run:
  "pan_tompkins_detector pass_through [0,0,0,0,2,0,0,0,0,1,0,-1,0,0,0,0] 31 =
     Inr ([4, 9], heart_rate_metrics [4, 9] 31 (50933 / 960))"
  by (simp add: pan_tompkins_detector_def bind_err_def small_integrated small_loop)

lemma min_gap_exceeds_mono: "d' \<le> d \<Longrightarrow> min_gap_exceeds d xs \<Longrightarrow> min_gap_exceeds d' xs"
  by (induction d xs rule: min_gap_exceeds.induct) auto

lemma increasing_diff_sum:
  "min_gap_exceeds 0 xs \<Longrightarrow> 2 \<le> length xs \<Longrightarrow> 0 < sum_list (np_diff (map int xs))"
proof (induction "0::int" xs rule: min_gap_exceeds.induct)
  case (1 x y ys)
  then show ?case by (cases ys) auto
qed auto

lemma sum_list_rr: "sum_list (map (\<lambda>d. real_of_int d / fs) ds) = real_of_int (sum_list ds) / fs"
  by (induction ds) (auto simp: add_divide_distrib)

lemma sum_list_of_int: "sum_list (map real_of_int ds) = real_of_int (sum_list ds)"
  by (induction ds) auto

lemma window_le_refractory: "search_window fs \<le> refractory_samples fs"
proof (cases "0 \<le> fs")
  case True
  then have "\<lfloor>0.08 * fs\<rfloor> \<le> \<lfloor>0.2 * fs\<rfloor>" by (intro floor_mono) simp
  then show ?thesis using True by (simp add: search_window_def refractory_samples_def py_int_def)
next
  case False
  then have "0.08 * fs < 0" by simp
  then have "\<lceil>0.08 * fs\<rceil> \<le> 0" by (simp add: ceiling_le_iff)
  then show ?thesis using False by (simp add: search_window_def py_int_def)
qed

subsection \<open>Claim C1\<close>

text \<open>Claim C1, as the code has it: the refractory test compares the candidate position in
  the integrated signal with the last accepted (relocated) peak, and the accepted peak is then
  moved back by at most \<^verbatim>\<open>int(0.08 * fs)\<close> samples.  So any two consecutive entries of the
  returned \<^verbatim>\<open>r_peaks\<close> differ by more than \<^verbatim>\<open>int(0.2 * fs) - int(0.08 * fs)\<close>, for every
  filter kernel, input signal and sampling rate on which the detector returns.\<close>

theorem refractory_gap_after_relocation:
  assumes "pan_tompkins_detector zp ecg fs = Inr (peaks, dm)"
  shows "min_gap_exceeds (py_int (0.2 * fs) - py_int (0.08 * fs)) peaks"
proof -
  from assms obtain integrated where I: "integrated_signal zp ecg fs = Inr integrated"
    and P: "peaks = r_peaks (detect_loop integrated ecg fs (initial_state integrated))"
    by (rule detector_peaks)
  have "30 < fs" using I by (rule integrated_signal_fs)
  then have "int (refractory_samples fs) = py_int (0.2 * fs)"
    and "int (search_window fs) = py_int (0.08 * fs)"
    by (simp_all add: refractory_samples_def search_window_def py_int_def)
  moreover have "min_gap_exceeds (int (refractory_samples fs) - int (search_window fs)) peaks"
    unfolding P by (rule detect_loop_gaps) (simp add: initial_state_def)
  ultimately show ?thesis by simp
qed

text \<open>The theorem at the concrete run: the two peaks 4 and 9 differ by more than
  \<open>6 - 2\<close>.\<close>

theorem refractory_gap_after_relocation_witness:
  "pan_tompkins_detector pass_through [0,0,0,0,2,0,0,0,0,1,0,-1,0,0,0,0] 31 =
     Inr ([4, 9], heart_rate_metrics [4, 9] 31 (50933 / 960))
   \<and> min_gap_exceeds (py_int (0.2 * 31) - py_int (0.08 * 31)) [4, 9]"
  using refractory_gap_after_relocation [OF small_run] small_run by simp

text \<open>Claim C1 as stated fails on that run: the consecutive peaks 4 and 9 differ by 5,
  which is not more than the refractory period of 6 samples.\<close>

theorem refractory_gap_counterexample:
  "map_sum id fst (pan_tompkins_detector pass_through [0,0,0,0,2,0,0,0,0,1,0,-1,0,0,0,0] 31) = Inr [4, 9]
   \<and> \<not> min_gap_exceeds (py_int (0.2 * 31)) [4, 9]"
  by (simp add: small_run py_int_def)

subsection \<open>Claim C6\<close>

text \<open>Claim C6: whenever the detector returns, \<^verbatim>\<open>avg_heart_rate_bpm\<close> equals
  \<open>60 \<sqdot> fs / mean(diff(r_peaks))\<close> if there are at least two peaks, and \<open>0\<close> otherwise.  The
  guard \<^verbatim>\<open>avg_rr > 0\<close> in the source never takes its \<open>0\<close> branch, because the returned
  peaks are strictly increasing and \<open>fs > 30\<close>.\<close>

theorem detector_avg_bpm:
  assumes "pan_tompkins_detector zp ecg fs = Inr (peaks, dm)"
  shows "(2 \<le> length peaks \<longrightarrow>
            avg_heart_rate_bpm dm = 60 * fs / np_mean (map real_of_int (np_diff (map int peaks))))
       \<and> (length peaks < 2 \<longrightarrow> avg_heart_rate_bpm dm = 0)"
proof -
  from assms obtain integrated where I: "integrated_signal zp ecg fs = Inr integrated"
    and P: "peaks = r_peaks (detect_loop integrated ecg fs (initial_state integrated))"
    and D: "dm = heart_rate_metrics peaks fs
                   (threshold (detect_loop integrated ecg fs (initial_state integrated)))"
    by (rule detector_peaks)
  have fs: "0 < fs" using integrated_signal_fs(1) [OF I] by simp
  have "min_gap_exceeds (int (refractory_samples fs) - int (search_window fs)) peaks"
    unfolding P by (rule detect_loop_gaps) (simp add: initial_state_def)
  then have inc: "min_gap_exceeds 0 peaks"
    by (rule min_gap_exceeds_mono [rotated]) (use window_le_refractory [of fs] in simp)
  show ?thesis
  proof (intro conjI impI)
    assume len: "2 \<le> length peaks"
    let ?ds = "np_diff (map int peaks)"
    have pos: "0 < sum_list ?ds" using inc len by (rule increasing_diff_sum)
    have n: "0 < length ?ds" using pos by (cases ?ds) auto
    have "np_mean (rr_intervals_s (map int peaks) fs) = real_of_int (sum_list ?ds) / fs / real (length ?ds)"
      by (simp add: np_mean_def rr_intervals_s_def sum_list_rr)
    moreover have "0 < real_of_int (sum_list ?ds) / fs / real (length ?ds)"
      using pos n fs by simp
    moreover have "np_mean (map real_of_int ?ds) = real_of_int (sum_list ?ds) / real (length ?ds)"
      by (simp add: np_mean_def sum_list_of_int)
    ultimately show "avg_heart_rate_bpm dm = 60 * fs / np_mean (map real_of_int ?ds)"
      using len by (simp add: D heart_rate_metrics_def Let_def)
  next
    assume "length peaks < 2"
    then show "avg_heart_rate_bpm dm = 0" by (simp add: D heart_rate_metrics_def)
  qed
qed

text \<open>At the concrete run: two peaks five samples apart at 31 Hz give 372 beats per
  minute.\<close>

theorem detector_avg_bpm_witness:
  "pan_tompkins_detector pass_through [0,0,0,0,2,0,0,0,0,1,0,-1,0,0,0,0] 31 =
     Inr ([4, 9], heart_rate_metrics [4, 9] 31 (50933 / 960))
   \<and> avg_heart_rate_bpm (heart_rate_metrics [4, 9] 31 (50933 / 960)) = 372"
  using detector_avg_bpm [OF small_run] small_run by (simp add: np_mean_def)

subsection \<open>Claim C10\<close>

text \<open>Claim C10: one pass through the loop body at a strict local maximum above the
  threshold that is not accepted (the refractory test fails, the search window is empty, or
  the amplitude gate fails) only advances the position by one: peaks, signal peaks, noise
  peaks and threshold are unchanged and no refractory skip is made.  A pass appends to
  \<^verbatim>\<open>noise_peaks\<close> exactly when the position is a strict local maximum whose value is at or
  below the threshold, and then appends that value.\<close>

theorem rejected_candidate_frame:
  "(is_local_max integrated (pos st) \<and> integrated ! pos st > threshold st \<and>
      \<not> (refractory_ok fs st \<and> 0 < length (local_signal signal_array fs (pos st)) \<and>
         amplitude_gate signal_array (signal_array ! actual_peak_idx signal_array fs (pos st)))
    \<longrightarrow> detect_step integrated signal_array fs st = st\<lparr>pos := pos st + 1\<rparr>)
   \<and> noise_peaks (detect_step integrated signal_array fs st) =
       (if is_local_max integrated (pos st) \<and> integrated ! pos st \<le> threshold st
        then noise_peaks st @ [integrated ! pos st] else noise_peaks st)"
  by (auto simp: detect_step_def Let_def)

text \<open>A flat signal fails the amplitude gate (\<open>0 > 0.5 \<sqdot> 0\<close> is false): the candidate at
  position 1 is above the threshold 0 and leaves everything but the position unchanged.\<close>

theorem rejected_candidate_frame_witness:
  "is_local_max [0, 1, 0] 1 \<and> [0, 1, 0] ! 1 > (0::real) \<and>
   \<not> amplitude_gate [0, 0, 0] ([0, 0, 0] ! actual_peak_idx [0, 0, 0] 31 1) \<and>
   detect_step [0, 1, 0] [0, 0, 0] 31
     \<lparr>pos = 1, r_peaks = [], signal_peaks = [], noise_peaks = [], threshold = 0\<rparr>
   = \<lparr>pos = 2, r_peaks = [], signal_peaks = [], noise_peaks = [], threshold = 0\<rparr>"
proof -
  have gate: "\<not> amplitude_gate [0, 0, 0] ([0, 0, 0] ! actual_peak_idx [0, 0, 0] 31 1)"
    by (simp add: amplitude_gate_code actual_peak_idx_def local_signal_def start_idx_def
          end_idx_def search_window_def py_int_def np_argmax_def)
  have cand: "is_local_max [0, 1, 0] 1 \<and> [0, 1, 0] ! 1 > (0::real)"
    by (simp add: is_local_max_def)
  show ?thesis
    using rejected_candidate_frame [of "[0, 1, 0]"
        "\<lparr>pos = 1, r_peaks = [], signal_peaks = [], noise_peaks = [], threshold = 0\<rparr>"
        31 "[0, 0, 0]"] gate cand
    by simp
qed


section \<open>Rhythm labels, morphology and the clinical interpretation\<close>

subsection \<open>Claim C5\<close>

lemma np_std_nonneg: "0 \<le> np_std xs"
  by (simp add: np_std_def np_var_nonneg)

lemma py_in_Normal:
  "py_in ''Normal'' (rate_tier hr) \<longleftrightarrow> rate_tier hr = ''Normal Sinus Rhythm''"
  by (simp add: rate_tier_def)

lemma label_code:
  "3 \<le> length peaks \<Longrightarrow>
   fst (detect_arrhythmia peaks fs) =
     claimed_label (if np_mean (rr_intervals_s peaks fs) > 0
                   then np_std (rr_intervals_s peaks fs) / np_mean (rr_intervals_s peaks fs) else 0)
                  (np_mean (map (\<lambda>r. 60 / r) (rr_intervals_s peaks fs)))"
  unfolding detect_arrhythmia_def Let_def claimed_label_def py_in_Normal
  by (simp add: rate_tier_def)

lemma claimed_label_nonpos: "c \<le> 0 \<Longrightarrow> claimed_label c hr = claimed_label 0 hr"
  by (simp add: claimed_label_def)

text \<open>Claim C5: with fewer than three peaks the label is \<open>Insufficient data\<close>.  Otherwise,
  with \<open>cv = std_rr / mean_rr\<close>, the label is the hierarchy of the specification:
  \<open>cv \<ge> 0.15\<close> gives the irregular-rhythm flag whatever the mean rate is, else the rate tier,
  a normal tier with \<open>cv \<ge> 0.08\<close> becoming borderline.  The quotients \<open>std_rr / mean_rr\<close>
  and \<open>60 / rr\<close> are those of the claim only where the divisors are not zero, which is the
  hypothesis of the second part (any strictly increasing peak list and \<open>fs \<noteq> 0\<close> satisfy
  it).\<close>

theorem detect_arrhythmia_labels:
  "(length peaks < 3 \<longrightarrow> fst (detect_arrhythmia peaks fs) = ''Insufficient data'')
   \<and> (3 \<le> length peaks \<and> fs \<noteq> 0 \<and> 0 \<notin> set (np_diff peaks)
        \<and> np_mean (rr_intervals_s peaks fs) \<noteq> 0 \<longrightarrow>
      fst (detect_arrhythmia peaks fs) =
        claimed_label (np_std (rr_intervals_s peaks fs) / np_mean (rr_intervals_s peaks fs))
                      (np_mean (map (\<lambda>r. 60 / r) (rr_intervals_s peaks fs))))"
proof (intro conjI impI)
  assume "length peaks < 3"
  then show "fst (detect_arrhythmia peaks fs) = ''Insufficient data''"
    by (simp add: detect_arrhythmia_def)
next
  assume A: "3 \<le> length peaks \<and> fs \<noteq> 0 \<and> 0 \<notin> set (np_diff peaks)
        \<and> np_mean (rr_intervals_s peaks fs) \<noteq> 0"
  let ?rr = "rr_intervals_s peaks fs"
  let ?hr = "np_mean (map (\<lambda>r. 60 / r) ?rr)"
  have len: "3 \<le> length peaks" using A by simp
  show "fst (detect_arrhythmia peaks fs) = claimed_label (np_std ?rr / np_mean ?rr) ?hr"
  proof (cases "0 < np_mean ?rr")
    case True
    then show ?thesis by (simp add: label_code [OF len])
  next
    case False
    then have "np_std ?rr / np_mean ?rr \<le> 0"
      using np_std_nonneg [of ?rr] by (simp add: divide_nonneg_nonpos)
    then have "claimed_label (np_std ?rr / np_mean ?rr) ?hr = claimed_label 0 ?hr"
      by (rule claimed_label_nonpos)
    then show ?thesis using False by (simp add: label_code [OF len])
  qed
qed

text \<open>Peaks 0, 100, 300 at 250 Hz: intervals 0.4 s and 0.8 s, \<open>cv = 1/3\<close>, mean rate
  112.5 per minute.  The rate tier would be tachycardia; the label is the irregularity
  flag.\<close>

lemma sqrt_1_25: "sqrt (1 / 25) = 1 / 5"
  by (rule real_sqrt_unique) (simp_all add: power2_eq_square)

theorem detect_arrhythmia_labels_witness:
  "3 \<le> length [0, 100, 300 :: int] \<and> (250::real) \<noteq> 0 \<and> 0 \<notin> set (np_diff [0, 100, 300 :: int])
   \<and> np_mean (rr_intervals_s [0, 100, 300] 250) = 3 / 5
   \<and> np_std (rr_intervals_s [0, 100, 300] 250) = 1 / 5
   \<and> np_mean (map (\<lambda>r. 60 / r) (rr_intervals_s [0, 100, 300] 250)) = 225 / 2
   \<and> fst (detect_arrhythmia [0, 100, 300] 250) = ''Flagged: Irregular Rhythm''"
proof -
  have m: "np_mean (rr_intervals_s [0, 100, 300] 250) = 3 / 5"
    by (simp add: rr_intervals_s_def np_mean_def)
  have s: "np_std (rr_intervals_s [0, 100, 300] 250) = 1 / 5"
    by (simp add: np_std_def np_var_def m sqrt_1_25) (simp add: rr_intervals_s_def np_mean_def sqrt_1_25)
  have h: "np_mean (map (\<lambda>r. 60 / r) (rr_intervals_s [0, 100, 300] 250)) = 225 / 2"
    by (simp add: rr_intervals_s_def np_mean_def)
  show ?thesis
    using detect_arrhythmia_labels [of "[0, 100, 300]" 250] m s h
    by (simp add: claimed_label_def)
qed

subsection \<open>Claim C9\<close>

text \<open>Claim C9: with fewer than three R-peaks \<^verbatim>\<open>calculate_qt_interval\<close> returns zero QT and
  QTc, no risk flag and the interpretation \<open>N/A\<close>, whatever the signal and sampling rate.\<close>

theorem qt_needs_three_peaks:
  "length peaks < 3 \<Longrightarrow>
   calculate_qt_interval ecg peaks fs =
     Inr \<lparr>mean_qt_ms = 0, mean_qtc_bazett_ms = 0, qt_risk_flag = False,
          qt_interpretation = ''N/A''\<rparr>"
  by (simp add: calculate_qt_interval_def)

text \<open>Two peaks, 10 and 200, in 130 samples at 250 Hz with a T wave at sample 70: the
  per-pair measurement on the pair would give a QT of 272 ms, yet the result is \<open>N/A\<close>.\<close>

lemma qt_pair_measurable:
  "qt_of_beat ((replicate 130 0)[70 := 1]) 250 10 = Inr (Some 272)"
  by code_simp

theorem qt_needs_three_peaks_witness:
  "length [10, 200 :: int] < 3 \<and>
   qt_of_beat ((replicate 130 0)[70 := 1]) 250 10 = Inr (Some 272) \<and>
   calculate_qt_interval ((replicate 130 0)[70 := 1]) [10, 200] 250 =
     Inr \<lparr>mean_qt_ms = 0, mean_qtc_bazett_ms = 0, qt_risk_flag = False,
          qt_interpretation = ''N/A''\<rparr>"
  using qt_needs_three_peaks [of "[10, 200]" "(replicate 130 0)[70 := 1]" 250] qt_pair_measurable
  by simp

subsection \<open>Claim C3\<close>

text \<open>Claim C3, as the code has it: \<^verbatim>\<open>measure_qrs_width\<close> first returns
  \<open>{0, 0, Insufficient data}\<close> when there are fewer than two R-peaks; with at least two
  R-peaks, when the loop over the peaks retains no width in (40, 200) ms, it returns
  \<open>{80, 0, Could not detect}\<close>.\<close>

theorem qrs_width_without_valid_beats:
  "(length peaks < 2 \<longrightarrow>
      measure_qrs_width ecg peaks fs =
        Inr \<lparr>mean_qrs_ms = 0, std_qrs_ms = 0, qrs_interpretation = ''Insufficient data''\<rparr>)
   \<and> (2 \<le> length peaks \<and> qrs_width_loop ecg fs peaks [] = Inr [] \<longrightarrow>
      measure_qrs_width ecg peaks fs =
        Inr \<lparr>mean_qrs_ms = 80, std_qrs_ms = 0, qrs_interpretation = ''Could not detect''\<rparr>)"
  by (simp add: measure_qrs_width_def bind_err_def)

text \<open>Three samples at 250 Hz: every segment is shorter than five samples, so no width is
  retained.  With the two peaks 1 and 2 the result is \<open>Could not detect\<close>, with the single
  peak 1 it is \<open>Insufficient data\<close>.\<close>

lemma short_segment_loop:
  "qrs_width_loop [0, 0, 0] 250 [1, 2] [] = Inr []"
  "qrs_width_loop [0, 0, 0] 250 [1] [] = Inr []"
  by code_simp+

theorem qrs_width_without_valid_beats_witness:
  "qrs_width_loop [0, 0, 0] 250 [1, 2] [] = Inr []
   \<and> measure_qrs_width [0, 0, 0] [1, 2] 250 =
       Inr \<lparr>mean_qrs_ms = 80, std_qrs_ms = 0, qrs_interpretation = ''Could not detect''\<rparr>
   \<and> measure_qrs_width [0, 0, 0] [1] 250 =
       Inr \<lparr>mean_qrs_ms = 0, std_qrs_ms = 0, qrs_interpretation = ''Insufficient data''\<rparr>"
  using qrs_width_without_valid_beats [of "[1, 2]" "[0, 0, 0]" 250]
    qrs_width_without_valid_beats [of "[1]" "[0, 0, 0]" 250]
  unfolding short_segment_loop by simp

text \<open>Claim C3 as stated fails with fewer than two peaks: with the single peak 1 the loop
  retains no width, and the result is not \<open>{80, 0, Could not detect}\<close>.\<close>

theorem qrs_width_counterexample:
  "qrs_width_loop [0, 0, 0] 250 [1] [] = Inr []
   \<and> measure_qrs_width [0, 0, 0] [1] 250 \<noteq>
       Inr \<lparr>mean_qrs_ms = 80, std_qrs_ms = 0, qrs_interpretation = ''Could not detect''\<rparr>"
  unfolding short_segment_loop by (simp add: measure_qrs_width_def)

subsection \<open>Claim C4\<close>

text \<open>Claim C4: in the clinical interpretation, a mean QRS width above 120 ms together with
  a heart rate above 100 per minute replaces the rhythm label by the wide-complex
  tachycardia label and puts the tachycardia warning first in the warning list; a mean QRS
  width above 120 ms with a heart rate of at most 100 leaves the label as it is and puts the
  QRS interpretation first instead.  The QT and HRV warnings follow in both cases.\<close>

theorem wide_qrs_rule:
  "(mean_qrs_ms qrs > 120 \<and> avg_heart_rate_bpm det > 100 \<longrightarrow>
      clinical_interpretation rhythm qrs det qt hrv =
        (''Wide-Complex Tachycardia - URGENT EVALUATION'',
         [''Wide QRS with tachycardia requires immediate assessment'']
         @ (if qt_risk_flag qt then [qt_interpretation qt] else [])
         @ (if sdnn_ms hrv > 0 \<and> sdnn_ms hrv < 50
            then [''Low HRV detected - consider cardiac risk assessment''] else [])))
   \<and> (mean_qrs_ms qrs > 120 \<and> avg_heart_rate_bpm det \<le> 100 \<longrightarrow>
      clinical_interpretation rhythm qrs det qt hrv =
        (rhythm,
         [qrs_interpretation qrs]
         @ (if qt_risk_flag qt then [qt_interpretation qt] else [])
         @ (if sdnn_ms hrv > 0 \<and> sdnn_ms hrv < 50
            then [''Low HRV detected - consider cardiac risk assessment''] else [])))"
  by (simp add: clinical_interpretation_def Let_def)

theorem wide_qrs_rule_witness:
  "clinical_interpretation ''Tachycardia''
     \<lparr>mean_qrs_ms = 140, std_qrs_ms = 5, qrs_interpretation = ''Wide QRS (BBB/Ventricular)''\<rparr>
     \<lparr>num_peaks = 20, avg_heart_rate_bpm = 130, avg_rr_interval_s = None, rr_std_s = None,
      final_threshold = 1\<rparr>
     \<lparr>mean_qt_ms = 0, mean_qtc_bazett_ms = 0, qt_risk_flag = False, qt_interpretation = ''N/A''\<rparr>
     (calculate_hrv_metrics [] 250)
   = (''Wide-Complex Tachycardia - URGENT EVALUATION'',
      [''Wide QRS with tachycardia requires immediate assessment''])
   \<and> clinical_interpretation ''Normal Sinus Rhythm''
     \<lparr>mean_qrs_ms = 140, std_qrs_ms = 5, qrs_interpretation = ''Wide QRS (BBB/Ventricular)''\<rparr>
     \<lparr>num_peaks = 20, avg_heart_rate_bpm = 70, avg_rr_interval_s = None, rr_std_s = None,
      final_threshold = 1\<rparr>
     \<lparr>mean_qt_ms = 0, mean_qtc_bazett_ms = 0, qt_risk_flag = False, qt_interpretation = ''N/A''\<rparr>
     (calculate_hrv_metrics [] 250)
   = (''Normal Sinus Rhythm'', [''Wide QRS (BBB/Ventricular)''])"
  using wide_qrs_rule [of
      "\<lparr>mean_qrs_ms = 140, std_qrs_ms = 5, qrs_interpretation = ''Wide QRS (BBB/Ventricular)''\<rparr>"
      "\<lparr>num_peaks = 20, avg_heart_rate_bpm = 130, avg_rr_interval_s = None, rr_std_s = None,
        final_threshold = 1\<rparr>" "''Tachycardia''"
      "\<lparr>mean_qt_ms = 0, mean_qtc_bazett_ms = 0, qt_risk_flag = False, qt_interpretation = ''N/A''\<rparr>"
      "calculate_hrv_metrics [] 250"]
    wide_qrs_rule [of
      "\<lparr>mean_qrs_ms = 140, std_qrs_ms = 5, qrs_interpretation = ''Wide QRS (BBB/Ventricular)''\<rparr>"
      "\<lparr>num_peaks = 20, avg_heart_rate_bpm = 70, avg_rr_interval_s = None, rr_std_s = None,
        final_threshold = 1\<rparr>" "''Normal Sinus Rhythm''"
      "\<lparr>mean_qt_ms = 0, mean_qtc_bazett_ms = 0, qt_risk_flag = False, qt_interpretation = ''N/A''\<rparr>"
      "calculate_hrv_metrics [] 250"]
  by (simp add: calculate_hrv_metrics_def)

section \<open>Preprocessing failures and a complete run\<close>

subsection \<open>Claim C2\<close>

lemma preprocess_zero_rate: "preprocess_ecg zp samples 0 = Inl ZeroDivisionError"
  by (simp add: preprocess_ecg_def)

lemma preprocess_bad_rate:
  assumes "fs \<noteq> 0" "fs < 120"
  shows "preprocess_ecg zp samples fs = Inl ValueError"
proof (cases "fs \<le> 80")
  case True
  then have b: "scipy_butter_band 4 (0.5 / (fs / 2)) (40 / (fs / 2)) = Inl ValueError"
    using assms by (cases "fs < 0") (auto simp: scipy_butter_band_def field_simps)
  show ?thesis
    using assms unfolding preprocess_ecg_def Let_def b by (simp add: bind_err_def)
next
  case False
  then have b: "scipy_butter_band 4 (0.5 / (fs / 2)) (40 / (fs / 2)) =
                  Inr (Butter_band 4 (0.5 / (fs / 2)) (40 / (fs / 2)))"
    by (auto simp: scipy_butter_band_def field_simps)
  have n: "scipy_iirnotch (60 / (fs / 2)) 30 = Inl ValueError"
    using False assms by (auto simp: scipy_iirnotch_def field_simps)
  show ?thesis
    using assms unfolding preprocess_ecg_def Let_def b n
    by (simp add: bind_err_def scipy_filtfilt_def)
qed

lemma preprocess_short:
  assumes "fs \<noteq> 0" "length samples \<le> 27"
  shows "preprocess_ecg zp samples fs = Inl ValueError"
proof (cases "fs < 120")
  case True
  then show ?thesis using assms by (simp add: preprocess_bad_rate)
next
  case False
  then have b: "scipy_butter_band 4 (0.5 / (fs / 2)) (40 / (fs / 2)) =
                  Inr (Butter_band 4 (0.5 / (fs / 2)) (40 / (fs / 2)))"
    by (auto simp: scipy_butter_band_def field_simps)
  show ?thesis
    using assms unfolding preprocess_ecg_def Let_def b
    by (simp add: bind_err_def scipy_filtfilt_def)
qed

lemma preprocess_succeeds:
  assumes "120 \<le> fs" "27 < length samples"
  shows "\<exists>cleaned fm. preprocess_ecg zp samples fs = Inr (cleaned, fm)
           \<and> length cleaned = length samples"
proof -
  have b: "scipy_butter_band 4 (0.5 / (fs / 2)) (40 / (fs / 2)) =
                  Inr (Butter_band 4 (0.5 / (fs / 2)) (40 / (fs / 2)))"
    using assms by (auto simp: scipy_butter_band_def field_simps)
  have n: "scipy_iirnotch (60 / (fs / 2)) 30 = Inr (Notch (60 / (fs / 2)) 30)"
    using assms by (auto simp: scipy_iirnotch_def field_simps)
  have "24 \<le> 0.2 * fs" using assms by simp
  then have "24 \<le> py_int (0.2 * fs)" by (simp add: py_int_def le_floor_iff)
  then have w: "\<not> py_int (0.2 * fs) < 1" by simp
  show ?thesis
    using assms w unfolding preprocess_ecg_def Let_def b n
    by (simp add: bind_err_def scipy_filtfilt_def uniform_filter1d_def)
qed

text \<open>Claim C2, as the code has it: \<^verbatim>\<open>preprocess_ecg\<close> has no check of its own and no
  error kinds of its own; it fails exactly when a library call raises.  It raises
  \<^verbatim>\<open>ZeroDivisionError\<close> for \<open>fs = 0\<close>, and \<^verbatim>\<open>ValueError\<close> for any other \<open>fs < 120\<close> (a band
  edge \<open>1/fs\<close>, \<open>80/fs\<close> or the notch frequency \<open>120/fs\<close> is out of range) and for at most 27
  samples (the padding of \<^verbatim>\<open>filtfilt\<close> for the nine coefficients of the fourth-order
  band-pass); no cleaned signal is produced then.  For \<open>fs \<ge> 120\<close> and at least 28 samples it
  returns a cleaned signal as long as the input.\<close>

theorem preprocess_failure:
  "(fs = 0 \<longrightarrow> preprocess_ecg zp samples fs = Inl ZeroDivisionError)
   \<and> (fs \<noteq> 0 \<and> (fs < 120 \<or> length samples \<le> 27) \<longrightarrow>
        preprocess_ecg zp samples fs = Inl ValueError)
   \<and> (120 \<le> fs \<and> 27 < length samples \<longrightarrow>
        (\<exists>cleaned fm. preprocess_ecg zp samples fs = Inr (cleaned, fm)
           \<and> length cleaned = length samples))"
  using preprocess_zero_rate preprocess_bad_rate preprocess_short preprocess_succeeds
  by blast

text \<open>The theorem at \<open>fs = 0\<close>, at 100 Hz, and at 27 and 28 samples at 250 Hz.\<close>

theorem preprocess_failure_witness:
  "preprocess_ecg pass_through (replicate 30 0) 0 = Inl ZeroDivisionError
   \<and> preprocess_ecg pass_through (replicate 30 0) 100 = Inl ValueError
   \<and> preprocess_ecg pass_through (replicate 27 0) 250 = Inl ValueError
   \<and> (\<exists>cleaned fm. preprocess_ecg pass_through (replicate 28 0) 250 = Inr (cleaned, fm)
         \<and> length cleaned = 28)"
  using preprocess_failure [of 0 pass_through "replicate 30 0"]
    preprocess_failure [of 100 pass_through "replicate 30 0"]
    preprocess_failure [of 250 pass_through "replicate 27 0"]
    preprocess_failure [of 250 pass_through "replicate 28 0"]
  by simp

text \<open>Claim C2 as stated fails at 30 samples and 250 Hz: 30 is below
  \<open>max(4 \<sqdot> 3, int(0.2 \<sqdot> 250) + 1) = 51\<close>, and the preprocessor returns a cleaned signal.\<close>

theorem preprocess_short_input_counterexample:
  "length (replicate 30 (0::real)) < max (4 * 3) (nat (py_int (0.2 * 250)) + 1)
   \<and> \<not> isl (preprocess_ecg pass_through (replicate 30 0) 250)"
proof -
  obtain cleaned fm where "preprocess_ecg pass_through (replicate 30 0) 250 = Inr (cleaned, fm)"
    using preprocess_succeeds [of 250 "replicate 30 0" pass_through] by auto
  then show ?thesis by (simp add: py_int_def)
qed

subsection \<open>A flat line through the whole pipeline\<close>

text \<open>A flat line of 28 samples at 250 Hz runs through every stage: the cleaned signal and
  the integrated signal are zero, no position is a strict local maximum, and no peak is
  found.\<close>

lemma pass_through_filtfilt:
  "3 * ntaps f < length x \<Longrightarrow> scipy_filtfilt pass_through f x = Inr x"
proof -
  have "pass_through f x = (!) x" by (rule ext) (simp add: pass_through_def)
  then show "3 * ntaps f < length x \<Longrightarrow> scipy_filtfilt pass_through f x = Inr x"
    by (simp add: scipy_filtfilt_def map_nth)
qed

lemma uniform_filter1d_zeros:
  assumes "1 \<le> w"
  shows "uniform_filter1d (replicate n 0) w = Inr (replicate n 0)"
proof -
  have z: "replicate n (0::real) ! nat (max 0 (min (int n - 1) k)) = 0" if "0 < n" for k
    using that by (intro nth_replicate) auto
  have "sum_list (map (\<lambda>k. replicate n (0::real) ! nat (max 0 (min (int n - 1) (int i - w div 2 + int k)))) ks) = 0"
    if "i < n" for i ks
    using that by (induction ks) (simp_all add: z)
  then have "map (\<lambda>i. sum_list (map (\<lambda>k. replicate n (0::real) ! nat (max 0 (min (int n - 1) (int i - w div 2 + int k))))
                                     [0..<nat w]) / real_of_int w) [0..<n]
             = map (\<lambda>i. 0) [0..<n]"
    by (intro map_cong) auto
  then show ?thesis
    using assms by (simp add: uniform_filter1d_def map_replicate_const)
qed

lemma np_mean_zeros: "np_mean (replicate n 0) = 0"
  by (simp add: np_mean_def sum_list_replicate)

lemma np_var_zeros: "np_var (replicate n 0) = 0"
  by (simp add: np_var_def np_mean_zeros)

lemma map2_zeros: "map2 (\<lambda>a b. a - b) (replicate n (0::real)) (replicate n 0) = replicate n 0"
  by (simp add: zip_replicate)

lemma flat_preprocess:
  "preprocess_ecg pass_through (replicate 28 0) 250 =
     Inr (replicate 28 0, \<lparr>snr_db = Finite_dB 100, confidence_score = 100, signal_std = 0\<rparr>)"
proof -
  have b: "scipy_butter_band 4 (0.5 / (250 / 2)) (40 / (250 / 2)) =
             Inr (Butter_band 4 (0.5 / (250 / 2)) (40 / (250 / 2)))"
    by (simp add: scipy_butter_band_def)
  have n: "scipy_iirnotch (60 / (250 / 2)) 30 = Inr (Notch (60 / (250 / 2)) 30)"
    by (simp add: scipy_iirnotch_def)
  have w: "py_int (0.2 * 250) = 50" by (simp add: py_int_def)
  show ?thesis
    unfolding preprocess_ecg_def Let_def b n w
    by (simp add: bind_err_def pass_through_filtfilt uniform_filter1d_zeros map2_zeros
          np_var_zeros np_std_def estimate_snr_def)
qed

lemma detect_loop_zeros:
  "r_peaks (detect_loop (replicate n 0) S fs st) = r_peaks st
   \<and> threshold (detect_loop (replicate n 0) S fs st) = threshold st"
proof (induction "replicate n (0::real)" S fs st rule: detect_loop.induct)
  case (1 S fs st)
  show ?case
  proof (cases "pos st < length (replicate n (0::real)) - 1")
    case True
    then have "\<not> is_local_max (replicate n 0) (pos st)"
      by (simp add: is_local_max_def)
    then have s: "detect_step (replicate n 0) S fs st = st\<lparr>pos := pos st + 1\<rparr>"
      by (simp add: detect_step_def)
    show ?thesis
      using "1.hyps" [OF True] True by (subst (1 2) detect_loop.simps) (simp add: s)
  next
    case False
    then show ?thesis by (subst (1 2) detect_loop.simps) simp
  qed
qed

lemma five_point_derivative_zeros:
  "five_point_derivative (replicate n 0) fs = replicate n 0"
proof -
  have "map (\<lambda>i. if 2 \<le> i \<and> i + 2 < n
               then (- (replicate n (0::real) ! (i - 2)) - 2 * replicate n 0 ! (i - 1)
                     + 2 * replicate n 0 ! (i + 1) + replicate n 0 ! (i + 2)) / (8 / fs)
               else 0) [0..<n]
        = map (\<lambda>i. 0) [0..<n]"
    by (intro map_cong) auto
  then show ?thesis by (simp add: five_point_derivative_def map_replicate_const)
qed

lemma np_convolve_full_zeros:
  "np_convolve_full (replicate n 0) v = replicate (n + length v - 1) 0"
proof -
  have H: "sum_list (map (\<lambda>j. if j \<le> m \<and> m - j < length v
                           then replicate n (0::real) ! j * v ! (m - j) else 0) js) = 0"
    if "set js \<subseteq> {..<n}" for m js
    using that by (induction js) simp_all
  have "sum_list (map (\<lambda>j. if j \<le> m \<and> m - j < length v
                           then replicate n (0::real) ! j * v ! (m - j) else 0) [0..<n]) = 0" for m
    by (rule H) auto
  then show ?thesis
    by (simp add: np_convolve_full_def map_replicate_const)
qed

lemma flat_integrated:
  "integrated_signal pass_through (replicate 28 0) 250 = Inr (replicate 30 0)"
proof -
  have b: "scipy_butter_band 2 (5 / (250 / 2)) (15 / (250 / 2)) =
             Inr (Butter_band 2 (5 / (250 / 2)) (15 / (250 / 2)))"
    by (simp add: scipy_butter_band_def)
  have w: "py_int (0.120 * 250) = 30" by (simp add: py_int_def)
  have "integrate_window (replicate 28 0) 250 = Inr (replicate 30 0)"
    unfolding integrate_window_def Let_def w
    by (simp add: np_convolve_same_def np_convolve_full_zeros)
  then show ?thesis
    unfolding integrated_signal_def Let_def b
    by (simp add: bind_err_def pass_through_filtfilt five_point_derivative_zeros)
qed

lemma sort_zeros: "sort (replicate n (0::real)) = replicate n 0"
proof (induction n)
  case 0
  then show ?case by simp
next
  case (Suc n)
  then show ?case by (cases n) simp_all
qed

lemma flat_detector:
  "pan_tompkins_detector pass_through (replicate 28 0) 250 =
     Inr ([], \<lparr>num_peaks = 0, avg_heart_rate_bpm = 0, avg_rr_interval_s = None,
               rr_std_s = None, final_threshold = 0\<rparr>)"
proof -
  have "np_percentile (replicate 30 0) 98 = 0"
    by (simp add: np_percentile_def sort_zeros Let_def)
  then have i: "initial_state (replicate 30 0) =
      \<lparr>pos = 1, r_peaks = [], signal_peaks = [], noise_peaks = [], threshold = 0\<rparr>"
    by (simp add: initial_state_def)
  show ?thesis
    using detect_loop_zeros [of 30 "replicate 28 0" 250 "initial_state (replicate 30 0)"]
    by (simp add: pan_tompkins_detector_def flat_integrated bind_err_def i heart_rate_metrics_def)
qed

lemma flat_line_run:
  "process_ecg_complete pass_through (replicate 28 0) 250 False = Inr flat_line_result"
  by (simp add: process_ecg_complete_def detection_stage_def bind_err_def flat_preprocess
        flat_detector detect_arrhythmia_def measure_qrs_width_def calculate_qt_interval_def
        calculate_hrv_metrics_def clinical_interpretation_def flat_line_result_def)

section \<open>Scale invariance of the detected peaks\<close>

subsection \<open>Scaling the primitives\<close>

lemma length_scale [simp]: "length (scale c xs) = length xs"
  by (simp add: scale_def)

lemma nth_scale [simp]: "i < length xs \<Longrightarrow> scale c xs ! i = c * xs ! i"
  by (simp add: scale_def)

lemma scale_Nil_iff [simp]: "scale c xs = [] \<longleftrightarrow> xs = []"
  by (simp add: scale_def)

lemma sum_list_scale: "sum_list (scale c xs) = c * sum_list xs"
  by (induction xs) (auto simp: scale_def algebra_simps)

lemma np_mean_scale: "np_mean (scale c xs) = c * np_mean xs"
  by (simp add: np_mean_def sum_list_scale)

lemma np_var_scale: "np_var (scale c xs) = c * c * np_var xs"
proof -
  have "map (\<lambda>x. (x - c * np_mean xs) * (x - c * np_mean xs)) (scale c xs)
        = scale (c * c) (map (\<lambda>x. (x - np_mean xs) * (x - np_mean xs)) xs)"
    by (simp add: scale_def algebra_simps)
  then show ?thesis
    by (simp add: np_var_def np_mean_scale)
qed

lemma take_scale: "take n (scale c xs) = scale c (take n xs)"
  by (simp add: scale_def take_map)

lemma drop_scale: "drop n (scale c xs) = scale c (drop n xs)"
  by (simp add: scale_def drop_map)

lemma last8_scale: "last8 (scale c xs) = scale c (last8 xs)"
  by (simp add: last8_def drop_scale)

lemma scale_append: "scale c (xs @ ys) = scale c xs @ scale c ys"
  by (simp add: scale_def)

lemma argmax_from_scale:
  "0 < c \<Longrightarrow> argmax_from (scale c xs) i best (c * v) = argmax_from xs i best v"
  by (induction xs i best v rule: argmax_from.induct) (auto simp: scale_def)

lemma np_argmax_scale: "0 < c \<Longrightarrow> np_argmax (scale c xs) = np_argmax xs"
  using argmax_from_scale [of c]
  by (cases xs) (auto simp: np_argmax_def scale_def)

lemma argmax_from_bound:
  "best < i \<Longrightarrow> argmax_from xs i best v < i + length xs"
  by (induction xs i best v rule: argmax_from.induct) auto

lemma np_argmax_less: "xs \<noteq> [] \<Longrightarrow> np_argmax xs < length xs"
  using argmax_from_bound [of 0 1]
  by (cases xs) (auto simp: np_argmax_def)

lemma insort_scale:
  "0 < c \<Longrightarrow> insort (c * x) (scale c ys) = scale c (insort x ys)"
  by (induction ys) (auto simp: scale_def)

lemma sort_scale: "0 < c \<Longrightarrow> sort (scale c xs) = scale c (sort xs)"
proof (induction xs)
  case Nil
  then show ?case by (simp add: scale_def)
next
  case (Cons x xs)
  have "sort (scale c (x # xs)) = insort (c * x) (sort (scale c xs))"
    by (simp add: scale_def)
  also have "\<dots> = scale c (insort x (sort xs))"
    using Cons by (simp add: insort_scale)
  finally show ?case by simp
qed

lemma percentile98_bounds:
  assumes "a \<noteq> []"
  shows "nat \<lfloor>98 / 100 * (real (length a) - 1)\<rfloor> < length a"
proof -
  have "0 \<le> real (length a) - 1" using assms by (cases a) auto
  then have "98 / 100 * (real (length a) - 1) \<le> real (length a) - 1"
    by simp
  then have "\<lfloor>98 / 100 * (real (length a) - 1)\<rfloor> \<le> \<lfloor>real (length a) - 1\<rfloor>"
    by (rule floor_mono)
  moreover have "\<lfloor>real (length a) - 1\<rfloor> = int (length a) - 1"
    by (metis floor_of_int of_int_1 of_int_diff of_int_of_nat_eq)
  moreover have "0 < length a" using assms by simp
  ultimately show ?thesis by linarith
qed

lemma np_percentile_scale:
  assumes "0 < c" "a \<noteq> []"
  shows "np_percentile (scale c a) 98 = c * np_percentile a 98"
proof -
  let ?lo = "nat \<lfloor>98 / 100 * (real (length a) - 1)\<rfloor>"
  have lo: "?lo < length (sort a)" using percentile98_bounds [OF assms(2)] by simp
  have hi: "min (?lo + 1) (length a - 1) < length (sort a)" using assms(2) by (cases a) auto
  show ?thesis
    using lo hi assms(1)
    by (simp add: np_percentile_def sort_scale Let_def algebra_simps)
qed

subsection \<open>Scaling the filter stages\<close>

lemma filtfilt_scale:
  "homogeneous zp \<Longrightarrow>
   scipy_filtfilt zp f (scale c x) = map_sum id (scale c) (scipy_filtfilt zp f x)"
  by (simp add: scipy_filtfilt_def homogeneous_def scale_def)

lemma uniform_filter1d_scale:
  "uniform_filter1d (scale c x) w = map_sum id (scale c) (uniform_filter1d x w)"
proof (cases "x = []")
  case True
  then show ?thesis by (simp add: uniform_filter1d_def scale_def)
next
  case False
  have idx: "nat (max 0 (min (int (length x) - 1) k)) < length x" for k
    using False by (cases x) auto
  have "sum_list (map (\<lambda>k. scale c x ! nat (max 0 (min (int (length x) - 1) (int i - w div 2 + int k)))) ks)
        = c * sum_list (map (\<lambda>k. x ! nat (max 0 (min (int (length x) - 1) (int i - w div 2 + int k)))) ks)"
    for i ks
    by (induction ks) (simp_all add: idx algebra_simps)
  then show ?thesis
    by (simp add: uniform_filter1d_def scale_def)
qed

lemma map2_minus_scale:
  "map2 (\<lambda>a b. a - b) (scale c xs) (scale c ys) = scale c (map2 (\<lambda>a b. a - b) xs ys)"
  by (induction xs ys rule: list_induct2') (simp_all add: scale_def algebra_simps)

lemma five_point_derivative_scale:
  "five_point_derivative (scale c x) fs = scale c (five_point_derivative x fs)"
  by (simp add: five_point_derivative_def scale_def algebra_simps)

lemma squared_scale:
  "map (\<lambda>d. d * d) (scale c ds) = scale (c * c) (map (\<lambda>d. d * d) ds)"
  by (simp add: scale_def)

lemma np_convolve_full_scale:
  "np_convolve_full (scale c a) v = scale c (np_convolve_full a v)"
proof -
  have H: "sum_list (map (\<lambda>j. if j \<le> m \<and> m - j < length v then scale c a ! j * v ! (m - j) else 0) js)
        = c * sum_list (map (\<lambda>j. if j \<le> m \<and> m - j < length v then a ! j * v ! (m - j) else 0) js)"
    if "set js \<subseteq> {..<length a}" for m js
    using that by (induction js) (simp_all add: algebra_simps)
  have "sum_list (map (\<lambda>j. if j \<le> m \<and> m - j < length v then scale c a ! j * v ! (m - j) else 0)
                 [0..<length a])
        = c * sum_list (map (\<lambda>j. if j \<le> m \<and> m - j < length v then a ! j * v ! (m - j) else 0)
                 [0..<length a])" for m
    by (rule H) auto
  then show ?thesis
    unfolding np_convolve_full_def by (simp add: scale_def [of c "map f xs" for f xs])
qed

lemma np_convolve_same_scale:
  "np_convolve_same (scale c a) v = map_sum id (scale c) (np_convolve_same a v)"
  by (simp add: np_convolve_same_def np_convolve_full_scale take_scale drop_scale)

lemma integrate_window_scale:
  "integrate_window (scale c sq) fs = map_sum id (scale c) (integrate_window sq fs)"
  by (simp add: integrate_window_def np_convolve_same_scale Let_def)

lemma bind_err_map_sum:
  "bind_err (map_sum id g m) k = bind_err m (\<lambda>x. k (g x))"
  by (cases m) (simp_all add: bind_err_def)

lemma map_sum_bind_err:
  "map_sum id g (bind_err m k) = bind_err m (\<lambda>x. map_sum id g (k x))"
  by (cases m) (simp_all add: bind_err_def)

lemma integrated_signal_scale:
  assumes "homogeneous zp"
  shows "integrated_signal zp (scale c x) fs = map_sum id (scale (c * c)) (integrated_signal zp x fs)"
  by (simp add: integrated_signal_def filtfilt_scale [OF assms] bind_err_map_sum map_sum_bind_err
        five_point_derivative_scale squared_scale integrate_window_scale Let_def)

lemma preprocess_scale:
  assumes "homogeneous zp"
  shows "map_sum id fst (preprocess_ecg zp (scale c x) fs)
         = map_sum id (\<lambda>r. scale c (fst r)) (preprocess_ecg zp x fs)"
  unfolding preprocess_ecg_def Let_def
  by (simp add: filtfilt_scale [OF assms] uniform_filter1d_scale bind_err_map_sum
        map_sum_bind_err map2_minus_scale)

subsection \<open>Scaling the thresholding loop\<close>

lemma is_local_max_scale:
  "0 < c \<Longrightarrow> Suc i < length I \<Longrightarrow> is_local_max (scale c I) i = is_local_max I i"
  by (simp add: is_local_max_def)

lemma local_signal_scale: "local_signal (scale a S) fs i = scale a (local_signal S fs i)"
  by (simp add: local_signal_def end_idx_def take_scale drop_scale)

lemma actual_peak_idx_scale:
  "0 < a \<Longrightarrow> actual_peak_idx (scale a S) fs i = actual_peak_idx S fs i"
  by (simp add: actual_peak_idx_def local_signal_scale np_argmax_scale)

lemma actual_peak_idx_less:
  assumes "local_signal S fs i \<noteq> []"
  shows "actual_peak_idx S fs i < length S"
proof -
  have "np_argmax (local_signal S fs i) < length (local_signal S fs i)"
    using assms by (rule np_argmax_less)
  then show ?thesis
    by (simp add: actual_peak_idx_def local_signal_def) arith
qed

lemma amplitude_gate_scale:
  assumes "0 < a"
  shows "amplitude_gate (scale a S) (a * p) = amplitude_gate S p"
proof -
  have "a * a * np_var S < 4 * (a * p) * (a * p) \<longleftrightarrow> np_var S < 4 * p * p"
  proof -
    have "4 * (a * p) * (a * p) = a * a * (4 * p * p)" by simp
    then show ?thesis using assms by (simp only: mult_less_cancel_left_pos mult_pos_pos)
  qed
  then show ?thesis
    using assms by (simp add: amplitude_gate_code np_var_scale zero_less_mult_iff)
qed

lemma updated_threshold_scale:
  "updated_threshold (scale c sp) (scale c np) = c * updated_threshold sp np"
  by (simp add: updated_threshold_def last8_scale np_mean_scale Let_def algebra_simps)

lemma scale_snoc: "scale c (xs @ [v]) = scale c xs @ [c * v]"
  by (simp add: scale_def)

lemma refractory_ok_scale: "refractory_ok fs (scale_state c st) = refractory_ok fs st"
  by (simp add: refractory_ok_def scale_state_def)

lemma detect_step_scale:
  assumes "0 < c" "0 < a" "Suc (pos st) < length I"
  shows "detect_step (scale c I) (scale a S) fs (scale_state c st)
         = scale_state c (detect_step I S fs st)"
proof -
  have p: "pos (scale_state c st) = pos st" by (simp add: scale_state_def)
  have lm: "is_local_max (scale c I) (pos st) = is_local_max I (pos st)"
    using assms by (simp add: is_local_max_scale)
  have thr: "(scale c I ! pos st > threshold (scale_state c st)) = (I ! pos st > threshold st)"
    using assms by (simp add: scale_state_def)
  have val: "local_signal S fs (pos st) \<noteq> [] \<Longrightarrow>
      scale a S ! actual_peak_idx S fs (pos st) = a * S ! actual_peak_idx S fs (pos st)"
    by (simp add: actual_peak_idx_less)
  show ?thesis
    unfolding detect_step_def Let_def p lm thr refractory_ok_scale local_signal_scale
      actual_peak_idx_scale [OF assms(2)]
    using assms val
    by (auto simp: amplitude_gate_scale scale_state_def scale_snoc [symmetric]
          updated_threshold_scale)
qed

lemma detect_loop_scale:
  "0 < c \<Longrightarrow> 0 < a \<Longrightarrow>
   detect_loop (scale c I) (scale a S) fs (scale_state c st)
     = scale_state c (detect_loop I S fs st)"
proof (induction I S fs st rule: detect_loop.induct)
  case (1 I S fs st)
  show ?case
  proof (cases "pos st < length I - 1")
    case True
    then have "Suc (pos st) < length I" by simp
    then have "detect_step (scale c I) (scale a S) fs (scale_state c st)
         = scale_state c (detect_step I S fs st)"
      using "1.prems" by (simp add: detect_step_scale)
    then show ?thesis
      using True "1.IH" [OF True "1.prems"]
      by (subst detect_loop.simps, subst (2) detect_loop.simps) (simp add: scale_state_def)
  next
    case False
    then show ?thesis
      by (subst detect_loop.simps, subst (2) detect_loop.simps) (simp add: scale_state_def)
  qed
qed

lemma initial_state_scale:
  "0 < c \<Longrightarrow> I \<noteq> [] \<Longrightarrow> initial_state (scale c I) = scale_state c (initial_state I)"
  by (simp add: initial_state_def scale_state_def np_percentile_scale scale_def [of c "[]"])

lemma np_convolve_same_nonempty:
  assumes "np_convolve_same a v = Inr I"
  shows "I \<noteq> []"
proof -
  from assms have a: "a \<noteq> []" and v: "v \<noteq> []"
    and I: "I = take (max (length a) (length v))
                 (drop ((min (length a) (length v) - 1) div 2) (np_convolve_full a v))"
    by (auto simp: np_convolve_same_def split: if_splits)
  have "0 < length a" "0 < length v" using a v by simp_all
  then have "(min (length a) (length v) - 1) div 2 < length a + length v - 1"
    and "0 < max (length a) (length v)"
    by linarith+
  then have "0 < length I"
    unfolding I by (simp add: np_convolve_full_def)
  then show ?thesis by auto
qed

lemma integrated_signal_nonempty:
  "integrated_signal zp x fs = Inr I \<Longrightarrow> I \<noteq> []"
  by (auto simp: integrated_signal_def integrate_window_def bind_err_def Let_def
        dest: np_convolve_same_nonempty split: if_splits sum.splits)

lemma avg_bpm_threshold:
  "avg_heart_rate_bpm (heart_rate_metrics peaks fs t) = avg_heart_rate_bpm (heart_rate_metrics peaks fs t')"
  by (simp add: heart_rate_metrics_def Let_def)

lemma detector_scale:
  assumes "homogeneous zp" "0 < a"
  shows "map_sum id (\<lambda>r. (fst r, avg_heart_rate_bpm (snd r))) (pan_tompkins_detector zp (scale a x) fs)
       = map_sum id (\<lambda>r. (fst r, avg_heart_rate_bpm (snd r))) (pan_tompkins_detector zp x fs)"
proof (cases "integrated_signal zp x fs")
  case (Inl e)
  then show ?thesis
    by (simp add: pan_tompkins_detector_def integrated_signal_scale [OF assms(1)] bind_err_def)
next
  case (Inr I)
  then have ne: "I \<noteq> []" by (rule integrated_signal_nonempty)
  have c: "0 < a * a" using assms(2) by simp
  have "detect_loop (scale (a * a) I) (scale a x) fs (initial_state (scale (a * a) I))
        = scale_state (a * a) (detect_loop I x fs (initial_state I))"
    by (simp add: initial_state_scale [OF c ne] detect_loop_scale [OF c assms(2)])
  then show ?thesis
    using Inr avg_bpm_threshold
    by (simp add: pan_tompkins_detector_def integrated_signal_scale [OF assms(1)] bind_err_def
          scale_state_def Let_def)
qed

subsection \<open>Claim C7\<close>

lemma preprocess_scale_cases:
  assumes "homogeneous zp"
  shows "(\<exists>e. preprocess_ecg zp x fs = Inl e \<and> preprocess_ecg zp (scale c x) fs = Inl e)
       \<or> (\<exists>cl m m'. preprocess_ecg zp x fs = Inr (cl, m)
                   \<and> preprocess_ecg zp (scale c x) fs = Inr (scale c cl, m'))"
  using preprocess_scale [OF assms, of c x fs]
  by (cases "preprocess_ecg zp x fs"; cases "preprocess_ecg zp (scale c x) fs") auto

lemma homogeneous_pass_through: "homogeneous pass_through"
  by (simp add: homogeneous_def pass_through_def)

text \<open>Claim C7: for every homogeneous filter kernel (every linear filter is one), every
  input signal, sampling rate and constant \<open>\<alpha> > 0\<close>, preprocessing followed by the QRS
  detector gives on \<open>\<alpha> \<sqdot> samples\<close> exactly the R-peak indices and the mean heart rate it gives
  on \<open>samples\<close> (and fails on the one exactly when it fails on the other, with the same
  error), over exact real arithmetic.\<close>

theorem scale_invariance:
  assumes "homogeneous zp" and "0 < \<alpha>"
  shows "map_sum id (\<lambda>(cleaned, fm, peaks, dm). (peaks, avg_heart_rate_bpm dm))
           (detection_stage zp (scale \<alpha> samples) fs)
       = map_sum id (\<lambda>(cleaned, fm, peaks, dm). (peaks, avg_heart_rate_bpm dm))
           (detection_stage zp samples fs)"
proof -
  have det: "map_sum id (\<lambda>(cleaned, fm, peaks, dm). (peaks, avg_heart_rate_bpm dm))
               (bind_err (pan_tompkins_detector zp cl fs) (\<lambda>(peaks, dm). Inr (cl', m, peaks, dm)))
           = map_sum id (\<lambda>r. (fst r, avg_heart_rate_bpm (snd r))) (pan_tompkins_detector zp cl fs)"
    for cl cl' :: "real list" and m :: filter_metrics
    by (cases "pan_tompkins_detector zp cl fs") (auto simp: bind_err_def)
  from preprocess_scale_cases [OF assms(1), of samples fs \<alpha>] show ?thesis
  proof (elim disjE exE conjE)
    fix e
    assume "preprocess_ecg zp samples fs = Inl e" "preprocess_ecg zp (scale \<alpha> samples) fs = Inl e"
    then show ?thesis by (simp add: detection_stage_def bind_err_def)
  next
    fix cl m m'
    assume "preprocess_ecg zp samples fs = Inr (cl, m)"
      "preprocess_ecg zp (scale \<alpha> samples) fs = Inr (scale \<alpha> cl, m')"
    then show ?thesis
      using detector_scale [OF assms, of cl fs]
      by (simp add: detection_stage_def det bind_err_def [of "Inr x" for x])
  qed
qed

text \<open>A run with detected peaks.  Under the pass-through kernel, preprocessing of the two
  impulses at 125 Hz only removes the moving-average baseline.  The integrated signal then has
  strict local maxima at positions 9 and 36 above the threshold; both pass the refractory
  test and the amplitude gate, are relocated to the impulses at 4 and 31, and each updates the
  threshold.  The mean heart rate is \<open>60 \<sqdot> 125 / 27 = 2500 / 9\<close>.\<close>

lemma pass_through_preprocess:
  assumes "120 \<le> fs" "27 < length x"
  shows "map_sum id fst (preprocess_ecg pass_through x fs)
         = map_sum id (\<lambda>baseline. map2 (\<lambda>a b. a - b) x baseline)
             (uniform_filter1d x (py_int (0.2 * fs)))"
proof -
  have b: "scipy_butter_band 4 (0.5 / (fs / 2)) (40 / (fs / 2)) =
                  Inr (Butter_band 4 (0.5 / (fs / 2)) (40 / (fs / 2)))"
    using assms by (auto simp: scipy_butter_band_def field_simps)
  have n: "scipy_iirnotch (60 / (fs / 2)) 30 = Inr (Notch (60 / (fs / 2)) 30)"
    using assms by (auto simp: scipy_iirnotch_def field_simps)
  show ?thesis
    using assms unfolding preprocess_ecg_def Let_def b n
    by (cases "uniform_filter1d x (py_int (0.2 * fs))")
       (simp_all add: bind_err_def pass_through_filtfilt)
qed

lemma detection_stage_peaks:
  "map_sum id (\<lambda>(cleaned, fm, peaks, dm). (peaks, avg_heart_rate_bpm dm))
     (detection_stage zp x fs)
   = bind_err (map_sum id fst (preprocess_ecg zp x fs)) (\<lambda>cleaned.
       map_sum id (\<lambda>r. (fst r, avg_heart_rate_bpm (snd r))) (pan_tompkins_detector zp cleaned fs))"
  by (cases "preprocess_ecg zp x fs"; cases "pan_tompkins_detector zp (fst (projr (preprocess_ecg zp x fs))) fs")
     (auto simp: detection_stage_def bind_err_def)

lemma two_beats_baseline:
  "map_sum id (\<lambda>baseline. map2 (\<lambda>a b. a - b) two_beats baseline) (uniform_filter1d two_beats 25)
     = Inr two_beats_cleaned"
  by code_simp

lemma two_beats_integrated_signal:
  "integrated_signal pass_through two_beats_cleaned 125 = Inr two_beats_integrated"
  by code_simp

lemma two_beats_loop:
  "detect_loop two_beats_integrated two_beats_cleaned 125 (initial_state two_beats_integrated)
   = \<lparr>pos = 61, r_peaks = [4, 31], signal_peaks = [7825 / 48, 7825 / 48],
      noise_peaks = [], threshold = 1565 / 24\<rparr>"
  by code_simp

lemma two_beats_detector:
  "pan_tompkins_detector pass_through two_beats_cleaned 125 =
     Inr ([4, 31], heart_rate_metrics [4, 31] 125 (1565 / 24))"
  by (simp add: pan_tompkins_detector_def bind_err_def two_beats_integrated_signal two_beats_loop)

lemma two_beats_stage:
  "map_sum id (\<lambda>(cleaned, fm, peaks, dm). (peaks, avg_heart_rate_bpm dm))
     (detection_stage pass_through two_beats 125) = Inr ([4, 31], 2500 / 9)"
proof -
  have w: "py_int (0.2 * 125) = 25" by (simp add: py_int_def)
  have len: "27 < length two_beats" by (simp add: two_beats_def)
  have "map_sum id fst (preprocess_ecg pass_through two_beats 125)
        = map_sum id (\<lambda>baseline. map2 (\<lambda>a b. a - b) two_beats baseline)
            (uniform_filter1d two_beats (py_int (0.2 * 125)))"
    by (rule pass_through_preprocess) (simp_all add: len)
  then have "map_sum id fst (preprocess_ecg pass_through two_beats 125) = Inr two_beats_cleaned"
    by (simp only: w two_beats_baseline)
  then show ?thesis
    by (simp add: detection_stage_peaks bind_err_def two_beats_detector heart_rate_metrics_def
          rr_intervals_s_def np_mean_def Let_def)
qed

theorem scale_invariance_witness:
  "homogeneous pass_through \<and> (0::real) < 2
   \<and> map_sum id (\<lambda>(cleaned, fm, peaks, dm). (peaks, avg_heart_rate_bpm dm))
        (detection_stage pass_through two_beats 125) = Inr ([4, 31], 2500 / 9)
   \<and> map_sum id (\<lambda>(cleaned, fm, peaks, dm). (peaks, avg_heart_rate_bpm dm))
        (detection_stage pass_through (scale 2 two_beats) 125) = Inr ([4, 31], 2500 / 9)"
  using scale_invariance [OF homogeneous_pass_through, of 2 two_beats 125]
    homogeneous_pass_through two_beats_stage
  by simp

end
